theory Spec2Isabelle
  imports Complex_Main
begin

section \<open>Tensor values\<close>

text \<open>
  The optimizer of \<^verbatim>\<open>mlagents/trainers/sac/optimizer_torch.py\<close> computes on torch
  tensors of floating-point numbers. An entry of a tensor is modelled by the type \<open>fl\<close>:
  a real number, one of the two infinities, or NaN. Sums, differences and products of
  finite entries are exact, and the two zeros of a float are one number; arithmetic on the
  other entries follows IEEE 754, so that \<open>inf - inf\<close>, \<open>0 * inf\<close> and \<open>0 / 0\<close> are NaN
  and NaN propagates. This is what the test \<^verbatim>\<open>torch.isinf(..) or torch.isnan(..)\<close>
  of \<^verbatim>\<open>sac_value_loss\<close> needs. Where the source's result depends on the format
  float32 itself, the model follows the format: \<^verbatim>\<open>exp\<close> leaves the range of
  float32 at both ends, the casts \<^verbatim>\<open>astype(np.float32)\<close> round, and the parameters
  of the networks, which \<^verbatim>\<open>soft_update\<close> copies, keep the sign of a zero.
\<close>

datatype fl = Fin real | PInf | NInf | NaN

fun sign_fl :: "fl \<Rightarrow> real" where
  "sign_fl (Fin a) = sgn a"
| "sign_fl PInf = 1"
| "sign_fl NInf = - 1"
| "sign_fl NaN = 0"

definition inf_of :: "real \<Rightarrow> fl" where
  "inf_of s = (if 0 < s then PInf else if s < 0 then NInf else NaN)"

instantiation fl :: "{zero, one, plus, uminus, minus, times}"
begin

definition zero_fl :: fl where
  "zero_fl = Fin 0"

definition one_fl :: fl where
  "one_fl = Fin 1"

fun plus_fl :: "fl \<Rightarrow> fl \<Rightarrow> fl" where
  "plus_fl (Fin a) (Fin b) = Fin (a + b)"
| "plus_fl NaN y = NaN"
| "plus_fl x NaN = NaN"
| "plus_fl PInf NInf = NaN"
| "plus_fl NInf PInf = NaN"
| "plus_fl PInf y = PInf"
| "plus_fl x PInf = PInf"
| "plus_fl NInf y = NInf"
| "plus_fl x NInf = NInf"

fun uminus_fl :: "fl \<Rightarrow> fl" where
  "uminus_fl (Fin a) = Fin (- a)"
| "uminus_fl PInf = NInf"
| "uminus_fl NInf = PInf"
| "uminus_fl NaN = NaN"

definition minus_fl :: "fl \<Rightarrow> fl \<Rightarrow> fl" where
  "minus_fl x y = x + (- y)"

fun times_fl :: "fl \<Rightarrow> fl \<Rightarrow> fl" where
  "times_fl (Fin a) (Fin b) = Fin (a * b)"
| "times_fl NaN y = NaN"
| "times_fl x NaN = NaN"
| "times_fl x y = inf_of (sign_fl x * sign_fl y)"

instance ..

end

text \<open>Division, as \<^verbatim>\<open>torch.mean\<close> uses it: the sum divided by the number of entries.\<close>

fun fdiv :: "fl \<Rightarrow> fl \<Rightarrow> fl" where
  "fdiv (Fin a) (Fin b) = (if b = 0 then inf_of a else Fin (a / b))"
| "fdiv NaN y = NaN"
| "fdiv x NaN = NaN"
| "fdiv (Fin a) y = Fin 0"
| "fdiv x (Fin b) = inf_of (sign_fl x * (if b < 0 then - 1 else 1))"
| "fdiv x y = NaN"

text \<open>
  \<^verbatim>\<open>torch.exp\<close> on float32: a result that is not nearer to the smallest positive
  float32, \<open>2 ^ -149\<close>, than to zero is zero, and a result that rounds beyond the largest
  float32, \<open>(2 - 2 ^ -23) * 2 ^ 127\<close>, is \<open>inf\<close>.
\<close>

fun fexp :: "fl \<Rightarrow> fl" where
  "fexp (Fin a) =
     (if exp a \<le> 1 / 2 ^ 150 then Fin 0
      else if (2 - 1 / 2 ^ 24) * 2 ^ 127 \<le> exp a then PInf
      else Fin (exp a))"
| "fexp PInf = PInf"
| "fexp NInf = Fin 0"
| "fexp NaN = NaN"

fun flog :: "fl \<Rightarrow> fl" where
  "flog (Fin a) = (if 0 < a then Fin (ln a) else if a = 0 then NInf else NaN)"
| "flog PInf = PInf"
| "flog NInf = NaN"
| "flog NaN = NaN"

text \<open>\<^verbatim>\<open>torch.min(a, b)\<close>: the elementwise minimum, which propagates NaN.\<close>

fun fmin :: "fl \<Rightarrow> fl \<Rightarrow> fl" where
  "fmin (Fin a) (Fin b) = Fin (min a b)"
| "fmin NaN y = NaN"
| "fmin x NaN = NaN"
| "fmin NInf y = NInf"
| "fmin x NInf = NInf"
| "fmin PInf y = y"
| "fmin x PInf = x"

fun fabs :: "fl \<Rightarrow> fl" where
  "fabs (Fin a) = Fin \<bar>a\<bar>"
| "fabs PInf = PInf"
| "fabs NInf = PInf"
| "fabs NaN = NaN"

text \<open>
  \<^verbatim>\<open>x.astype(np.float32)\<close>: the float32 nearest to \<open>x\<close>, the one with the even
  significand when two are equally near. A float32 has 24 significant bits and exponents
  from \<open>-149\<close> for its last bit; what rounds to \<open>2 ^ 128\<close> or beyond is infinite.
\<close>

definition round_half_even :: "real \<Rightarrow> int" where
  "round_half_even x =
     (let f = \<lfloor>x\<rfloor> in
      if x - of_int f < 1/2 then f
      else if 1/2 < x - of_int f then f + 1
      else if even f then f else f + 1)"

definition float32_of_real :: "real \<Rightarrow> fl" where
  "float32_of_real x =
     (if x = 0 then Fin 0
      else
        (let e = max (\<lfloor>log 2 \<bar>x\<bar>\<rfloor> - 23) (- 149);
             y = of_int (round_half_even (x / 2 powr (of_int e))) * 2 powr (of_int e)
         in if 2 ^ 128 \<le> \<bar>y\<bar> then inf_of x else Fin y))"

definition astype_float32 :: "fl \<Rightarrow> fl" where
  "astype_float32 x = (case x of Fin a \<Rightarrow> float32_of_real a | _ \<Rightarrow> x)"

definition isinf :: "fl \<Rightarrow> bool" where
  "isinf x = (x = PInf \<or> x = NInf)"

definition isnan :: "fl \<Rightarrow> bool" where
  "isnan x = (x = NaN)"

fun is_finite :: "fl \<Rightarrow> bool" where
  "is_finite (Fin a) = True"
| "is_finite x = False"

type_synonym vec = "fl list"
type_synonym mat = "fl list list"

fun fsum :: "vec \<Rightarrow> fl" where
  "fsum [] = Fin 0"
| "fsum (x # xs) = x + fsum xs"

text \<open>\<^verbatim>\<open>torch.mean\<close> of all entries; NaN for a tensor without entries.\<close>

definition mean :: "vec \<Rightarrow> fl" where
  "mean xs = fdiv (fsum xs) (Fin (real (length xs)))"

section \<open>Parameter values\<close>

text \<open>
  An entry of a parameter tensor: a float with the sign of its zero, \<open>SFin 0\<close> for
  \<open>+0.0\<close> and \<open>SNZero\<close> for \<open>-0.0\<close>. Sums and products follow IEEE 754 in the signs of
  zeros, in the infinities and in NaN: a product is negative when exactly one factor is,
  a sum of zeros is \<open>-0.0\<close> only when both are, and a nonzero number minus itself is
  \<open>+0.0\<close>. Finite nonzero results are exact.
\<close>

datatype sfl = SFin real | SNZero | SPInf | SNInf | SNaN

fun s_value :: "sfl \<Rightarrow> real" where
  "s_value (SFin a) = a"
| "s_value x = 0"

fun s_negative :: "sfl \<Rightarrow> bool" where
  "s_negative (SFin a) = (a < 0)"
| "s_negative SNZero = True"
| "s_negative SNInf = True"
| "s_negative x = False"

fun s_infinite :: "sfl \<Rightarrow> bool" where
  "s_infinite SPInf = True"
| "s_infinite SNInf = True"
| "s_infinite x = False"

fun s_finite :: "sfl \<Rightarrow> bool" where
  "s_finite (SFin a) = True"
| "s_finite SNZero = True"
| "s_finite x = False"

instantiation sfl :: "{plus, uminus, minus, times}"
begin

definition plus_sfl :: "sfl \<Rightarrow> sfl \<Rightarrow> sfl" where
  "plus_sfl x y =
     (if x = SNaN \<or> y = SNaN then SNaN
      else if s_infinite x \<and> s_infinite y then (if x = y then x else SNaN)
      else if s_infinite x then x
      else if s_infinite y then y
      else if x = SNZero \<and> y = SNZero then SNZero
      else SFin (s_value x + s_value y))"

fun uminus_sfl :: "sfl \<Rightarrow> sfl" where
  "uminus_sfl (SFin a) = (if a = 0 then SNZero else SFin (- a))"
| "uminus_sfl SNZero = SFin 0"
| "uminus_sfl SPInf = SNInf"
| "uminus_sfl SNInf = SPInf"
| "uminus_sfl SNaN = SNaN"

definition minus_sfl :: "sfl \<Rightarrow> sfl \<Rightarrow> sfl" where
  "minus_sfl x y = x + (- y)"

definition times_sfl :: "sfl \<Rightarrow> sfl \<Rightarrow> sfl" where
  "times_sfl x y =
     (if x = SNaN \<or> y = SNaN then SNaN
      else if s_infinite x \<or> s_infinite y then
        (if s_finite x \<and> s_value x = 0 \<or> s_finite y \<and> s_value y = 0 then SNaN
         else if s_negative x = s_negative y then SPInf else SNInf)
      else if s_value x * s_value y = 0 then
        (if s_negative x = s_negative y then SFin 0 else SNZero)
      else SFin (s_value x * s_value y))"

instance ..

end

section \<open>Errors\<close>

text \<open>
  Every exception the modelled code can raise is a value: the \<^verbatim>\<open>KeyError\<close> of a
  dictionary lookup, the \<^verbatim>\<open>IndexError\<close> of a list index, the \<^verbatim>\<open>RuntimeError\<close>
  of torch for shapes that cannot be broadcast, for \<^verbatim>\<open>torch.stack\<close> of an empty
  list and for an action index outside its branch, the \<^verbatim>\<open>TypeError\<close> of an operand
  of the wrong kind, the \<^verbatim>\<open>AttributeError\<close> of a method that a Python integer does
  not have, the \<^verbatim>\<open>ValueError\<close> of \<^verbatim>\<open>range\<close> with step zero, and the
  \<^verbatim>\<open>UnityTrainerException\<close> that \<^verbatim>\<open>sac_value_loss\<close> raises itself.
  The model covers tensors of the ranks that \<^verbatim>\<open>update\<close> passes to the loss
  functions; for an operand of another rank, where torch would go on broadcasting, the
  model stops with \<open>ShapeNotModelled\<close>.
\<close>

datatype error = KeyError | IndexError | RuntimeError | TypeError | AttributeError
  | ValueError | UnityTrainerException | ShapeNotModelled

definition and_then :: "error + 'a \<Rightarrow> ('a \<Rightarrow> error + 'b) \<Rightarrow> error + 'b" where
  "and_then m f = (case m of Inl e \<Rightarrow> Inl e | Inr x \<Rightarrow> f x)"

text \<open>A list of results evaluated from left to right: the first error is raised.\<close>

fun sequence_err :: "(error + 'a) list \<Rightarrow> error + 'a list" where
  "sequence_err [] = Inr []"
| "sequence_err (m # ms) =
     and_then m (\<lambda>x. and_then (sequence_err ms) (\<lambda>xs. Inr (x # xs)))"

text \<open>A Python dict is an association list in insertion order.\<close>

type_synonym 'a dict = "(string \<times> 'a) list"

definition getitem :: "'a dict \<Rightarrow> string \<Rightarrow> error + 'a" where
  "getitem d k = (case map_of d k of None \<Rightarrow> Inl KeyError | Some v \<Rightarrow> Inr v)"

definition getindex :: "'a list \<Rightarrow> nat \<Rightarrow> error + 'a" where
  "getindex xs i = (if i < length xs then Inr (xs ! i) else Inl IndexError)"

section \<open>Elementwise operations with broadcasting\<close>

text \<open>
  Along one axis torch combines two tensors entry by entry when their sizes are equal,
  repeats the single entry of a tensor of size one, and raises otherwise.
\<close>

definition broadcast2 ::
  "('a \<Rightarrow> 'b \<Rightarrow> error + 'c) \<Rightarrow> 'a list \<Rightarrow> 'b list \<Rightarrow> error + 'c list" where
  "broadcast2 f xs ys =
     (if length xs = length ys then sequence_err (map2 f xs ys)
      else if length xs = 1 then sequence_err (map (f (hd xs)) ys)
      else if length ys = 1 then sequence_err (map (\<lambda>x. f x (hd ys)) xs)
      else Inl RuntimeError)"

definition vec_op :: "(fl \<Rightarrow> fl \<Rightarrow> fl) \<Rightarrow> vec \<Rightarrow> vec \<Rightarrow> error + vec" where
  "vec_op g = broadcast2 (\<lambda>a b. Inr (g a b))"

definition mat_op :: "(fl \<Rightarrow> fl \<Rightarrow> fl) \<Rightarrow> mat \<Rightarrow> mat \<Rightarrow> error + mat" where
  "mat_op g = broadcast2 (vec_op g)"

text \<open>
  \<^verbatim>\<open>torch.nn.functional.mse_loss(input, target)\<close> with its default
  \<^verbatim>\<open>reduction='mean'\<close>: the mean of the squared differences, one number for the
  whole tensor.
\<close>

definition mse_loss :: "vec \<Rightarrow> vec \<Rightarrow> error + fl" where
  "mse_loss input target =
     and_then (vec_op (\<lambda>a b. (a - b) * (a - b)) input target) (\<lambda>sq. Inr (mean sq))"

text \<open>\<^verbatim>\<open>torch.mean(torch.stack(losses))\<close> for a Python list of scalar tensors.\<close>

definition mean_stack :: "fl list \<Rightarrow> error + fl" where
  "mean_stack losses = (if losses = [] then Inl RuntimeError else Inr (mean losses))"

text \<open>
  \<^verbatim>\<open>torch.mean(torch.stack(vs), dim=0)\<close> for a list of \<open>[B]\<close> vectors (or of the
  \<open>[B, 1]\<close> columns that \<^verbatim>\<open>keepdim=True\<close> leaves, which are represented by their
  \<open>B\<close> entries): the mean over the list, entry by entry. \<^verbatim>\<open>torch.stack\<close> raises for
  an empty list and for tensors of different sizes.
\<close>

definition mean_dim0 :: "vec list \<Rightarrow> error + vec" where
  "mean_dim0 vs =
     (if vs = [] then Inl RuntimeError
      else if \<exists>v \<in> set vs. length v \<noteq> length (hd vs) then Inl RuntimeError
      else Inr (map (\<lambda>b. mean (map (\<lambda>v. v ! b) vs)) [0..<length (hd vs)]))"

definition stack :: "'a list \<Rightarrow> error + 'a list" where
  "stack ts = (if ts = [] then Inl RuntimeError else Inr ts)"

definition mean_dim0_mat :: "mat list \<Rightarrow> error + mat" where
  "mean_dim0_mat ms =
     (if ms = [] then Inl RuntimeError
      else if \<exists>m \<in> set ms. map length m \<noteq> map length (hd ms) then Inl RuntimeError
      else Inr (map (\<lambda>b. map (\<lambda>k. mean (map (\<lambda>m. m ! b ! k) ms)) [0..<length (hd ms ! b)])
                  [0..<length (hd ms)]))"

text \<open>
  The output of a Q network for one stream: one value per sample (shape \<open>[B]\<close>) when the
  actions are an input of the network, one row of values per sample (shape \<open>[B, K]\<close>)
  otherwise.
\<close>

datatype tensor = is_Vec: Vec (the_vec: vec) | is_Mat: Mat (the_mat: mat)

text \<open>
  \<^verbatim>\<open>t.squeeze()\<close> drops the axes of size one. A \<open>[B]\<close> vector stays (for \<open>B = 1\<close>
  it becomes a scalar, which broadcasts as a vector of size one does), a \<open>[B, 1]\<close> column
  becomes the \<open>[B]\<close> vector of its entries, a \<open>[1, K]\<close> row becomes \<open>[K]\<close>.
\<close>

definition squeeze :: "tensor \<Rightarrow> error + vec" where
  "squeeze t =
     (case t of
        Vec v \<Rightarrow> Inr v
      | Mat m \<Rightarrow>
          if \<forall>row \<in> set m. length row = 1 then Inr (concat m)
          else if length m = 1 then Inr (hd m)
          else Inl ShapeNotModelled)"

section \<open>The optimizer's configuration\<close>

text \<open>
  The fields of \<^verbatim>\<open>TorchSACOptimizer\<close> that \<^verbatim>\<open>__init__\<close> sets from the trainer
  settings and the policy and that no method changes afterwards.
\<close>

record sac_config =
  tau :: sfl
  init_entcoef :: fl
  act_size :: "nat list"
  use_continuous_act :: bool
  stream_names :: "string list"
  gammas :: "fl list"
  use_dones_in_backup :: "nat dict"
  sequence_length :: nat
  use_vis_obs :: bool
  num_visual_encoders :: nat

section \<open>The Q loss\<close>

text \<open>
  One pass of the loop of \<^verbatim>\<open>sac_q_loss\<close> (lines 172 to 189) for the stream \<open>name\<close>
  at position \<open>i\<close>. Python evaluates the operands of the backup from left to right.
  \<^verbatim>\<open>mse_loss\<close> returns one number, so \<^verbatim>\<open>loss_masks * mse_loss(..)\<close> is the mask
  scaled by that number.
\<close>

definition q_loss_stream ::
  "sac_config \<Rightarrow> tensor dict \<Rightarrow> tensor dict \<Rightarrow> vec dict \<Rightarrow> vec \<Rightarrow> vec dict \<Rightarrow> vec \<Rightarrow>
   nat \<Rightarrow> string \<Rightarrow> error + (fl \<times> fl)" where
  "q_loss_stream cfg q1_out q2_out target_values dones rewards loss_masks i name =
     and_then (and_then (getitem q1_out name) squeeze) (\<lambda>q1_stream.
     and_then (and_then (getitem q2_out name) squeeze) (\<lambda>q2_stream.
     and_then (getitem rewards name) (\<lambda>reward.
     and_then (getitem (use_dones_in_backup cfg) name) (\<lambda>u.
     and_then (getindex (gammas cfg) i) (\<lambda>gamma.
     and_then (getitem target_values name) (\<lambda>target_value.
     and_then (vec_op (*) (map (\<lambda>d. (Fin 1 - Fin (real u) * d) * gamma) dones) target_value)
       (\<lambda>bootstrap.
     and_then (vec_op (+) reward bootstrap) (\<lambda>q_backup.
     and_then (mse_loss q_backup q1_stream) (\<lambda>mse1.
     and_then (mse_loss q_backup q2_stream) (\<lambda>mse2.
       Inr (Fin (1/2) * mean (map (\<lambda>m. m * mse1) loss_masks),
            Fin (1/2) * mean (map (\<lambda>m. m * mse2) loss_masks))))))))))))"

fun q_loss_loop ::
  "sac_config \<Rightarrow> tensor dict \<Rightarrow> tensor dict \<Rightarrow> vec dict \<Rightarrow> vec \<Rightarrow> vec dict \<Rightarrow> vec \<Rightarrow>
   (nat \<times> string) list \<Rightarrow> fl list \<times> fl list \<Rightarrow> error + (fl list \<times> fl list)" where
  "q_loss_loop cfg q1_out q2_out target_values dones rewards loss_masks [] acc = Inr acc"
| "q_loss_loop cfg q1_out q2_out target_values dones rewards loss_masks ((i, name) # rest)
     (q1_losses, q2_losses) =
     and_then (q_loss_stream cfg q1_out q2_out target_values dones rewards loss_masks i name)
       (\<lambda>(l1, l2).
          q_loss_loop cfg q1_out q2_out target_values dones rewards loss_masks rest
            (q1_losses @ [l1], q2_losses @ [l2]))"

definition sac_q_loss ::
  "sac_config \<Rightarrow> tensor dict \<Rightarrow> tensor dict \<Rightarrow> vec dict \<Rightarrow> vec \<Rightarrow> vec dict \<Rightarrow> vec \<Rightarrow>
   error + (fl \<times> fl)" where
  "sac_q_loss cfg q1_out q2_out target_values dones rewards loss_masks =
     and_then (q_loss_loop cfg q1_out q2_out target_values dones rewards loss_masks
                 (enumerate 0 (map fst q1_out)) ([], []))
       (\<lambda>(q1_losses, q2_losses).
     and_then (mean_stack q1_losses) (\<lambda>q1_loss.
     and_then (mean_stack q2_losses) (\<lambda>q2_loss.
       Inr (q1_loss, q2_loss))))"




section \<open>The Polyak update\<close>

text \<open>
  The parameters of a network are the list that \<^verbatim>\<open>parameters()\<close> yields; each
  parameter tensor is represented by the list of its entries. \<^verbatim>\<open>copy_\<close> writes a
  tensor into one of the same size, repeating a single entry to that size if need be.
  The argument \<^verbatim>\<open>tau\<close> of \<^verbatim>\<open>soft_update\<close> is written \<open>tau'\<close>, apart from
  the field \<open>tau\<close> of the configuration.
\<close>

type_synonym params = "sfl list list"

definition copy_into :: "sfl list \<Rightarrow> sfl list \<Rightarrow> error + sfl list" where
  "copy_into target_param new =
     (if length new = length target_param then Inr new
      else if length new = 1 then Inr (replicate (length target_param) (hd new))
      else Inl RuntimeError)"

text \<open>
  Lines 196 to 198 for one pair of parameters:
  \<^verbatim>\<open>target_param.data * (1.0 - tau) + source_param.data * tau\<close>, with the broadcasting
  of torch, written into the target.
\<close>

definition soft_update_param :: "sfl list \<Rightarrow> sfl list \<Rightarrow> sfl \<Rightarrow> error + sfl list" where
  "soft_update_param source_param target_param tau' =
     and_then (broadcast2 (\<lambda>a b. Inr (a + b))
                 (map (\<lambda>t. t * (SFin 1 - tau')) target_param)
                 (map (\<lambda>s. s * tau') source_param))
       (copy_into target_param)"

text \<open>
  \<^verbatim>\<open>soft_update\<close> (lines 194 to 198) walks \<^verbatim>\<open>zip(source.parameters(),
  target.parameters())\<close> and overwrites the target's parameters one after the other. The
  result is the error raised, if any, and the target's parameters as they are then.
\<close>

fun soft_update :: "params \<Rightarrow> params \<Rightarrow> sfl \<Rightarrow> error option \<times> params" where
  "soft_update (source_param # source) (target_param # target) tau' =
     (case soft_update_param source_param target_param tau' of
        Inl e \<Rightarrow> (Some e, target_param # target)
      | Inr new \<Rightarrow>
          (case soft_update source target tau' of (r, target') \<Rightarrow> (r, new # target')))"
| "soft_update source target tau' = (None, target)"

section \<open>Construction\<close>

text \<open>
  The target entropy is a scalar tensor for continuous actions and a Python list with one
  number per branch for discrete actions (lines 130 to 140).
\<close>

datatype target_entropy = TEContinuous fl | TEDiscrete vec

definition discrete_target_entropy_scale :: fl where
  "discrete_target_entropy_scale = Fin (2/10)"

definition continuous_target_entropy_scale :: fl where
  "continuous_target_entropy_scale = Fin 1"

text \<open>
  Lines 130 to 140. \<^verbatim>\<open>np.prod\<close> and \<^verbatim>\<open>np.log\<close> take a Python integer below
  \<open>2 ^ 64\<close> as a 64-bit integer, and the result is cast to float32. A larger integer
  stays a Python object: the product of it is a Python integer again, which has no method
  \<^verbatim>\<open>astype\<close>, and it has no logarithm.
\<close>

definition init_target_entropy :: "sac_config \<Rightarrow> error + target_entropy" where
  "init_target_entropy cfg =
     (if use_continuous_act cfg then
        and_then (getindex (act_size cfg) 0) (\<lambda>d.
          if d < 2 ^ 64 then
            Inr (TEContinuous (Fin (- 1) * continuous_target_entropy_scale
                                 * astype_float32 (Fin (real d))))
          else Inl AttributeError)
      else
        and_then (sequence_err
                    (map (\<lambda>i. if i < 2 ^ 64 then
                                 Inr (discrete_target_entropy_scale
                                        * astype_float32 (flog (Fin (real i))))
                               else Inl TypeError)
                       (act_size cfg)))
          (\<lambda>tes. Inr (TEDiscrete tes)))"

text \<open>Lines 126 to 129: one log coefficient per entry of \<^verbatim>\<open>act_size\<close>.\<close>

definition init_log_ent_coef :: "sac_config \<Rightarrow> vec" where
  "init_log_ent_coef cfg = map flog (replicate (length (act_size cfg)) (init_entcoef cfg))"

text \<open>Line 124: the freshly built target network takes the critic's parameters.\<close>

definition init_target_network :: "params \<Rightarrow> params \<Rightarrow> error option \<times> params" where
  "init_target_network critic fresh_target = soft_update critic fresh_target (SFin 1)"

section \<open>Branches of a discrete action space\<close>

text \<open>
  Modelled from the spec: \<^verbatim>\<open>break_into_branches\<close> of
  \<^verbatim>\<open>mlagents.trainers.models_torch\<close> is not among the sources. It splits the columns
  of a \<open>[B, sum act_size]\<close> tensor into per-branch groups: the branch \<open>i\<close> holds, for every
  sample, the \<open>act_size[i]\<close> columns after those of the branches before it. Slicing past
  the end of a row gives a shorter group, as Python slices do.
\<close>

fun branch_offsets :: "nat \<Rightarrow> nat list \<Rightarrow> (nat \<times> nat) list" where
  "branch_offsets start [] = []"
| "branch_offsets start (a # as) = (start, a) # branch_offsets (start + a) as"

definition break_into_branches :: "mat \<Rightarrow> nat list \<Rightarrow> mat list" where
  "break_into_branches concatenated action_size =
     map (\<lambda>(start, a). map (\<lambda>row. take a (drop start row)) concatenated)
       (branch_offsets 0 action_size)"

text \<open>
  Modelled from the spec: \<^verbatim>\<open>actions_to_onehot\<close> of
  \<^verbatim>\<open>mlagents.trainers.models_torch\<close> is not among the sources. It one-hot encodes the
  integer action indices per branch: for the column \<open>i\<close> of the \<open>[B, branches]\<close> action
  tensor, a \<open>[B, act_size[i]]\<close> tensor with a one at the chosen index of each sample.
  \<^verbatim>\<open>one_hot\<close> raises for an index that is not below the size of the branch. The
  helper walks the columns of the action tensor (\<^verbatim>\<open>discrete_actions.T\<close>), and the
  action tensor is represented by the list of its columns: one list of \<open>B\<close> action indices
  per branch.
\<close>

definition one_hot :: "nat \<Rightarrow> nat \<Rightarrow> error + vec" where
  "one_hot num_classes a =
     (if a < num_classes then Inr (map (\<lambda>k. if k = a then Fin 1 else Fin 0) [0..<num_classes])
      else Inl RuntimeError)"

definition actions_to_onehot :: "nat list list \<Rightarrow> nat list \<Rightarrow> error + mat list" where
  "actions_to_onehot discrete_actions action_size =
     sequence_err
       (map (\<lambda>(i, act).
               and_then (getindex action_size i) (\<lambda>n. sequence_err (map (one_hot n) act)))
          (enumerate 0 discrete_actions))"

text \<open>
  \<^verbatim>\<open>_condense_q_streams\<close> (lines 340 to 355). The \<open>[B, 1]\<close> tensor of a stream is
  returned as such: a matrix of rows with one entry. Slicing the columns of a tensor
  without a second axis is an \<^verbatim>\<open>IndexError\<close>.
\<close>

definition condense_stream :: "nat list \<Rightarrow> mat list \<Rightarrow> tensor \<Rightarrow> error + tensor" where
  "condense_stream action_size onehot_actions item =
     (case item of
        Vec v \<Rightarrow> Inl IndexError
      | Mat m \<Rightarrow>
          and_then (sequence_err
                      (map (\<lambda>(act, q). and_then (mat_op (*) act q) (\<lambda>prod. Inr (map fsum prod)))
                         (zip onehot_actions (break_into_branches m action_size))))
            (\<lambda>only_action_qs.
          and_then (mean_dim0 only_action_qs) (\<lambda>condensed.
            Inr (Mat (map (\<lambda>x. [x]) condensed)))))"

definition condense_q_streams ::
  "sac_config \<Rightarrow> tensor dict \<Rightarrow> nat list list \<Rightarrow> error + tensor dict" where
  "condense_q_streams cfg q_output discrete_actions =
     and_then (actions_to_onehot discrete_actions (act_size cfg)) (\<lambda>onehot_actions.
       sequence_err
         (map (\<lambda>(key, item).
                 and_then (condense_stream (act_size cfg) onehot_actions item)
                   (\<lambda>c. Inr (key, c)))
            q_output))"

section \<open>The value loss\<close>

text \<open>\<open>[K] * [B, A]\<close>: the vector is broadcast against every row.\<close>

definition scale_rows :: "vec \<Rightarrow> mat \<Rightarrow> error + mat" where
  "scale_rows v m = sequence_err (map (vec_op (*) v) m)"

text \<open>
  \<open>q_out[name] * action_probs\<close>, broken into branches and summed within each branch
  (lines 217 to 222 and the list comprehensions of lines 225 and 231).
\<close>

definition branched_weighted_q ::
  "sac_config \<Rightarrow> tensor dict \<Rightarrow> string \<Rightarrow> mat \<Rightarrow> error + vec list" where
  "branched_weighted_q cfg qp_out name action_probs =
     and_then (getitem qp_out name) (\<lambda>qp.
       case qp of
         Vec v \<Rightarrow> Inl ShapeNotModelled
       | Mat m \<Rightarrow>
           and_then (mat_op (*) m action_probs) (\<lambda>weighted.
             Inr (map (map fsum) (break_into_branches weighted (act_size cfg)))))"

text \<open>The first loop of \<^verbatim>\<open>sac_value_loss\<close> (lines 212 to 236), for one stream.\<close>

definition min_policy_q ::
  "sac_config \<Rightarrow> mat \<Rightarrow> tensor dict \<Rightarrow> tensor dict \<Rightarrow> bool \<Rightarrow> string \<Rightarrow> error + vec" where
  "min_policy_q cfg log_probs q1p_out q2p_out discrete name =
     (if \<not> discrete then
        and_then (getitem q1p_out name) (\<lambda>q1p.
        and_then (getitem q2p_out name) (\<lambda>q2p.
          case (q1p, q2p) of
            (Vec a, Vec b) \<Rightarrow> vec_op fmin a b
          | _ \<Rightarrow> Inl ShapeNotModelled))
      else
        (let action_probs = map (map fexp) log_probs in
         and_then (branched_weighted_q cfg q1p_out name action_probs) (\<lambda>branched_q1p.
         and_then (branched_weighted_q cfg q2p_out name action_probs) (\<lambda>branched_q2p.
         and_then (mean_dim0 branched_q1p) (\<lambda>q1p_mean.
         and_then (mean_dim0 branched_q2p) (\<lambda>q2p_mean.
           vec_op fmin q1p_mean q2p_mean))))))"

text \<open>
  The loss of one stream, lines 246 to 248 and 266 to 269: as in the Q loss,
  \<^verbatim>\<open>mse_loss\<close> is one number and scales the mask.
\<close>

definition masked_value_loss :: "vec \<Rightarrow> vec \<Rightarrow> vec \<Rightarrow> error + fl" where
  "masked_value_loss loss_masks value v_backup =
     and_then (mse_loss value v_backup) (\<lambda>mse.
       Inr (Fin (1/2) * mean (map (\<lambda>m. m * mse) loss_masks)))"

text \<open>
  \<^verbatim>\<open>sac_value_loss\<close> (lines 200 to 274) in two parts: the value of
  \<^verbatim>\<open>value_loss\<close> at line 271, and the test of lines 272 to 274 on it.
  \<open>log_ent_coef\<close> is the field \<^verbatim>\<open>self._log_ent_coef\<close>.
\<close>

definition mean_value_loss ::
  "sac_config \<Rightarrow> vec \<Rightarrow> mat \<Rightarrow> vec dict \<Rightarrow> tensor dict \<Rightarrow> tensor dict \<Rightarrow> vec \<Rightarrow> bool \<Rightarrow>
   error + fl" where
  "mean_value_loss cfg log_ent_coef log_probs values q1p_out q2p_out loss_masks discrete =
     (let ent_coef = map fexp log_ent_coef; names = map fst values in
      and_then (sequence_err
                  (map (\<lambda>name.
                          and_then (min_policy_q cfg log_probs q1p_out q2p_out discrete name)
                            (\<lambda>q. Inr (name, q)))
                     names))
        (\<lambda>min_policy_qs.
      and_then
        (if \<not> discrete then
           sequence_err
             (map (\<lambda>name.
                     and_then (getitem min_policy_qs name) (\<lambda>min_q.
                     and_then (scale_rows ent_coef log_probs) (\<lambda>scaled.
                     and_then (vec_op (-) min_q (map fsum scaled)) (\<lambda>v_backup.
                     and_then (getitem values name) (\<lambda>value.
                       masked_value_loss loss_masks value v_backup)))))
                names)
         else
           (let branched_per_action_ent =
                  break_into_branches (map (map (\<lambda>l. l * fexp l)) log_probs) (act_size cfg) in
            and_then (sequence_err
                        (map (\<lambda>(i, lp).
                                and_then (getindex ent_coef i) (\<lambda>c.
                                  Inr (map (\<lambda>row. fsum (map (\<lambda>l. c * l) row)) lp)))
                           (enumerate 0 branched_per_action_ent)))
              (\<lambda>bonuses.
            and_then (stack bonuses) (\<lambda>branched_ent_bonus.
              sequence_err
                (map (\<lambda>name.
                        and_then (getitem min_policy_qs name) (\<lambda>min_q.
                        and_then (mean_dim0 branched_ent_bonus) (\<lambda>bonus.
                        and_then (vec_op (-) min_q bonus) (\<lambda>v_backup.
                        and_then (getitem values name) (\<lambda>value.
                          masked_value_loss loss_masks value v_backup)))))
                   names)))))
        mean_stack))"

definition sac_value_loss ::
  "sac_config \<Rightarrow> vec \<Rightarrow> mat \<Rightarrow> vec dict \<Rightarrow> tensor dict \<Rightarrow> tensor dict \<Rightarrow> vec \<Rightarrow> bool \<Rightarrow>
   error + fl" where
  "sac_value_loss cfg log_ent_coef log_probs values q1p_out q2p_out loss_masks discrete =
     and_then (mean_value_loss cfg log_ent_coef log_probs values q1p_out q2p_out loss_masks
                 discrete)
       (\<lambda>value_loss.
          if isinf value_loss \<or> isnan value_loss then Inl UnityTrainerException
          else Inr value_loss)"

section \<open>The policy loss\<close>

text \<open>
  \<^verbatim>\<open>torch.mean(torch.stack(list(q1p_outs.values())), axis=0)\<close>: the streams are
  stacked, which needs tensors of one shape, and averaged entry by entry.
\<close>

definition mean_streams :: "tensor list \<Rightarrow> error + tensor" where
  "mean_streams ts =
     (if ts = [] then Inl RuntimeError
      else if \<forall>t \<in> set ts. is_Vec t then
        and_then (mean_dim0 (map the_vec ts)) (\<lambda>v. Inr (Vec v))
      else if \<forall>t \<in> set ts. is_Mat t then
        and_then (mean_dim0_mat (map the_mat ts)) (\<lambda>m. Inr (Mat m))
      else Inl RuntimeError)"

text \<open>
  \<^verbatim>\<open>torch.squeeze\<close> of the stacked \<open>[branches, B, 1]\<close> tensor (line 303): a vector
  when there is one branch or one sample, a \<open>[branches, B]\<close> matrix otherwise.
\<close>

definition squeeze_stack :: "vec list \<Rightarrow> tensor" where
  "squeeze_stack rows =
     (if length rows = 1 then Vec (hd rows)
      else if \<forall>r \<in> set rows. length r = 1 then Vec (concat rows)
      else Mat rows)"

text \<open>\<^verbatim>\<open>torch.mean(loss_masks * batch_policy_loss)\<close> (lines 288 and 304).\<close>

definition masked_mean :: "vec \<Rightarrow> tensor \<Rightarrow> error + fl" where
  "masked_mean loss_masks batch_loss =
     (case batch_loss of
        Vec v \<Rightarrow> and_then (vec_op (*) loss_masks v) (\<lambda>p. Inr (mean p))
      | Mat m \<Rightarrow>
          and_then (sequence_err (map (vec_op (*) loss_masks) m)) (\<lambda>p. Inr (mean (concat p))))"

definition sac_policy_loss ::
  "sac_config \<Rightarrow> vec \<Rightarrow> mat \<Rightarrow> tensor dict \<Rightarrow> vec \<Rightarrow> bool \<Rightarrow> error + fl" where
  "sac_policy_loss cfg log_ent_coef log_probs q1p_outs loss_masks discrete =
     (let ent_coef = map fexp log_ent_coef in
      and_then (mean_streams (map snd q1p_outs)) (\<lambda>mean_q1.
      and_then
        (if \<not> discrete then
           (case mean_q1 of
              Mat m \<Rightarrow> Inl ShapeNotModelled
            | Vec q \<Rightarrow>
                and_then (scale_rows ent_coef log_probs) (\<lambda>scaled.
                and_then (mat_op (-) scaled (map (\<lambda>x. [x]) q)) (\<lambda>diff.
                and_then (masked_mean loss_masks (Vec (map mean diff))) (\<lambda>policy_loss.
                  Inr (Vec (map mean diff))))))
         else
           (case mean_q1 of
              Vec q \<Rightarrow> Inl ShapeNotModelled
            | Mat mq \<Rightarrow>
                (let action_probs = map (map fexp) log_probs;
                     branched_per_action_ent =
                       break_into_branches (map (map (\<lambda>l. l * fexp l)) log_probs) (act_size cfg)
                 in
                 and_then (mat_op (*) mq action_probs) (\<lambda>q_term.
                 and_then (sequence_err
                             (map (\<lambda>(i, (lp, qt)).
                                     and_then (getindex ent_coef i) (\<lambda>c.
                                     and_then (mat_op (-) (map (map (\<lambda>l. c * l)) lp) qt) (\<lambda>d.
                                       Inr (map fsum d))))
                                (enumerate 0
                                   (zip branched_per_action_ent
                                      (break_into_branches q_term (act_size cfg))))))
                   (\<lambda>losses.
                 and_then (stack losses) (\<lambda>branched_policy_loss.
                   Inr (squeeze_stack branched_policy_loss)))))))
        (\<lambda>batch_policy_loss. masked_mean loss_masks batch_policy_loss)))"

section \<open>The entropy loss\<close>

text \<open>The \<open>[B, branches]\<close> matrix whose columns are the given \<open>[B]\<close> vectors.\<close>

definition rows_of_columns :: "vec list \<Rightarrow> mat" where
  "rows_of_columns cols =
     (case cols of
        [] \<Rightarrow> []
      | c # _ \<Rightarrow> map (\<lambda>b. map (\<lambda>col. col ! b) cols) [0..<length c])"

text \<open>
  \<^verbatim>\<open>sac_entropy_loss\<close> (lines 307 to 338). \<open>te\<close> is the field
  \<^verbatim>\<open>self.target_entropy\<close>; adding a Python list to a tensor, or iterating over a
  scalar tensor, is a \<^verbatim>\<open>TypeError\<close>.
\<close>

definition sac_entropy_loss ::
  "sac_config \<Rightarrow> vec \<Rightarrow> target_entropy \<Rightarrow> mat \<Rightarrow> vec \<Rightarrow> bool \<Rightarrow> error + fl" where
  "sac_entropy_loss cfg log_ent_coef te log_probs loss_masks discrete =
     (if \<not> discrete then
        (case te of
           TEDiscrete tes \<Rightarrow> Inl TypeError
         | TEContinuous t \<Rightarrow>
             (let target_current_diff = map (\<lambda>row. fsum (map (\<lambda>l. l + t) row)) log_probs in
              and_then (vec_op (*) log_ent_coef loss_masks) (\<lambda>a.
              and_then (vec_op (*) a target_current_diff) (\<lambda>b.
                Inr (- mean b)))))
      else
        (case te of
           TEContinuous t \<Rightarrow> Inl TypeError
         | TEDiscrete tes \<Rightarrow>
             (let branched_per_action_ent =
                    break_into_branches (map (map (\<lambda>l. l * fexp l)) log_probs) (act_size cfg) in
              and_then (stack (map (\<lambda>(lp, t). map (\<lambda>row. fsum row + t) lp)
                                 (zip branched_per_action_ent tes)))
                (\<lambda>cols.
              and_then (scale_rows log_ent_coef (rows_of_columns cols)) (\<lambda>scaled.
              and_then (vec_op (*) loss_masks (map mean scaled)) (\<lambda>masked.
                Inr (- mean masked)))))))"

section \<open>The optimizer's state\<close>

text \<open>
  What an update can change: the parameters of the policy (network body and
  distribution), of the policy's critic, of the two Q networks and of the target network,
  the log entropy coefficients, the normalization statistics of the four network bodies,
  the internal state of the three Adam optimizers and the gradient buffers. The
  normalizers, the optimizers' internals and the gradient buffers belong to torch and stay
  abstract (\<open>'n\<close>, \<open>'o\<close>, \<open>'g\<close>). The field \<open>calls\<close> records, in order, the calls made to
  the optimizers, to autograd (with the value of the loss that \<^verbatim>\<open>backward\<close> is
  called on) and to \<^verbatim>\<open>soft_update\<close> (with its \<^verbatim>\<open>tau\<close>).
\<close>

datatype optimizer_id = PolicyOptimizer | ValueOptimizer | EntropyOptimizer

datatype loss_id = PolicyLoss | TotalValueLoss | EntropyLoss

datatype call = ZeroGrad optimizer_id | Backward loss_id fl | Step optimizer_id | SoftUpdate sfl

record ('n, 'o, 'g) sac_state =
  policy_params :: params
  critic_params :: params
  q1_params :: params
  q2_params :: params
  target_params :: params
  log_ent_coef :: vec
  target_entropy :: target_entropy
  policy_norm :: 'n
  q1_norm :: 'n
  q2_norm :: 'n
  target_norm :: 'n
  policy_optimizer :: 'o
  value_optimizer :: 'o
  entropy_optimizer :: 'o
  grads :: 'g
  calls :: "call list"

text \<open>
  The experience batch, field by field as \<^verbatim>\<open>list_to_tensor\<close> reads it. The
  observations are passed on to the networks only and stay abstract. The actions are
  read as floats for a continuous policy and with \<^verbatim>\<open>dtype=torch.long\<close> for a
  discrete one (the list of the columns of that tensor, one per branch).
\<close>

record ('obs, 'vis) batch =
  batch_rewards :: "string \<Rightarrow> vec"
  batch_vector_obs :: 'obs
  batch_next_vector_in :: 'obs
  batch_action_mask :: mat
  batch_actions :: mat
  batch_actions_long :: "nat list list"
  batch_memory :: "vec list"
  batch_visual_obs :: "nat \<Rightarrow> 'vis"
  batch_next_visual_obs :: "nat \<Rightarrow> 'vis"
  batch_masks :: vec
  batch_done :: vec

text \<open>
  The collaborators that are not part of the optimizer: the policy's
  \<^verbatim>\<open>sample_actions\<close> (which returns the sampled actions, the log probabilities, the
  entropies and the value estimates per stream), the forward pass of a Q network and of
  the target network, and torch's \<^verbatim>\<open>zero_grad\<close>, \<^verbatim>\<open>backward\<close> and
  \<^verbatim>\<open>step\<close> (\<open>optimizer_step\<close> for the optimizers of network parameters,
  \<open>coefficient_step\<close> for the optimizer of the log entropy coefficients, whose tensor
  the losses read). The gradients that \<^verbatim>\<open>backward\<close> adds to the buffers are those of
  the graph built by the forward passes, hence a function of the state at that time and
  of the batch.
\<close>

record ('n, 'o, 'g, 'obs, 'vis) backend =
  sample_actions ::
    "params \<Rightarrow> params \<Rightarrow> 'n \<Rightarrow> 'obs list \<Rightarrow> 'vis list \<Rightarrow> mat \<Rightarrow> vec list \<Rightarrow> nat \<Rightarrow> bool \<Rightarrow>
     mat \<times> mat \<times> vec \<times> vec dict"
  q_network :: "params \<Rightarrow> 'n \<Rightarrow> 'obs list \<Rightarrow> 'vis list \<Rightarrow> mat option \<Rightarrow> tensor dict"
  target_network :: "params \<Rightarrow> 'n \<Rightarrow> 'obs list \<Rightarrow> 'vis list \<Rightarrow> vec dict"
  zero_grad :: "optimizer_id \<Rightarrow> 'g \<Rightarrow> 'g"
  backward :: "loss_id \<Rightarrow> ('n, 'o, 'g) sac_state \<Rightarrow> ('obs, 'vis) batch \<Rightarrow> 'g \<Rightarrow> 'g"
  optimizer_step :: "optimizer_id \<Rightarrow> 'o \<Rightarrow> 'g \<Rightarrow> params \<Rightarrow> 'o \<times> params"
  coefficient_step :: "'o \<Rightarrow> 'g \<Rightarrow> vec \<Rightarrow> 'o \<times> vec"

text \<open>\<^verbatim>\<open>PolicyValueNetwork.forward\<close> (lines 58 to 66).\<close>

definition value_network ::
  "('n, 'o, 'g, 'obs, 'vis) backend \<Rightarrow> ('n, 'o, 'g) sac_state \<Rightarrow> 'obs list \<Rightarrow> 'vis list \<Rightarrow>
   mat option \<Rightarrow> tensor dict \<times> tensor dict" where
  "value_network be st vec_inputs vis_inputs actions =
     (q_network be (q1_params st) (q1_norm st) vec_inputs vis_inputs actions,
      q_network be (q2_params st) (q2_norm st) vec_inputs vis_inputs actions)"

text \<open>
  Modelled from the spec: \<^verbatim>\<open>copy_normalization\<close> of
  \<^verbatim>\<open>mlagents.trainers.models_torch\<close> is not among the sources. Lines 399 to 407
  copy the running observation-normalization statistics of the policy's network body
  into both Q networks and into the target network's body.
\<close>

definition copy_normalization :: "('n, 'o, 'g) sac_state \<Rightarrow> ('n, 'o, 'g) sac_state" where
  "copy_normalization st =
     st\<lparr>q1_norm := policy_norm st, q2_norm := policy_norm st, target_norm := policy_norm st\<rparr>"

text \<open>
  Lines 380 to 383: the memories at the indices \<^verbatim>\<open>range(0, len(batch["memory"]),
  sequence_length)\<close>; \<^verbatim>\<open>range\<close> raises for a step of zero.
\<close>

definition sequence_memories :: "nat \<Rightarrow> 'a list \<Rightarrow> error + 'a list" where
  "sequence_memories seq_len memory =
     (if seq_len = 0 then Inl ValueError
      else Inr (map (\<lambda>i. memory ! i) (filter (\<lambda>i. i mod seq_len = 0) [0..<length memory])))"

section \<open>The update\<close>

text \<open>Lines 386 to 396: one tensor per visual encoder of the policy.\<close>

definition visual_observations :: "sac_config \<Rightarrow> (nat \<Rightarrow> 'vis) \<Rightarrow> 'vis list" where
  "visual_observations cfg field =
     (if use_vis_obs cfg then map field [0..<num_visual_encoders cfg] else [])"

text \<open>Lines 368 to 370: the rewards of every stream of \<^verbatim>\<open>self.reward_signals\<close>.\<close>

definition stream_rewards :: "sac_config \<Rightarrow> ('obs, 'vis) batch \<Rightarrow> vec dict" where
  "stream_rewards cfg batch = map (\<lambda>name. (name, batch_rewards batch name)) (stream_names cfg)"

text \<open>What the forward passes of lines 408 to 435 give.\<close>

record forward =
  fw_log_probs :: mat
  fw_sampled_values :: "vec dict"
  fw_q1p_out :: "tensor dict"
  fw_q2p_out :: "tensor dict"
  fw_q1_stream :: "tensor dict"
  fw_q2_stream :: "tensor dict"
  fw_target_values :: "vec dict"

text \<open>
  Lines 408 to 435, on the state \<open>st\<close> after the normalization statistics were copied.
  Only \<^verbatim>\<open>_condense_q_streams\<close> can raise here.
\<close>

definition forward_pass ::
  "('n, 'o, 'g, 'obs, 'vis) backend \<Rightarrow> sac_config \<Rightarrow> ('n, 'o, 'g) sac_state \<Rightarrow>
   ('obs, 'vis) batch \<Rightarrow> vec list \<Rightarrow> error + forward" where
  "forward_pass be cfg st batch memories =
     (let vec_obs = [batch_vector_obs batch];
          next_vec_obs = [batch_next_vector_in batch];
          vis_obs = visual_observations cfg (batch_visual_obs batch);
          next_vis_obs = visual_observations cfg (batch_next_visual_obs batch)
      in
      case sample_actions be (policy_params st) (critic_params st) (policy_norm st)
             vec_obs vis_obs (batch_action_mask batch) memories (sequence_length cfg)
             (\<not> use_continuous_act cfg) of
        (sampled_actions, log_probs, entropies, sampled_values) \<Rightarrow>
      and_then
        (if use_continuous_act cfg then
           (case value_network be st vec_obs vis_obs (Some sampled_actions) of
              (q1p_out, q2p_out) \<Rightarrow>
            case value_network be st vec_obs vis_obs (Some (batch_actions batch)) of
              (q1_out, q2_out) \<Rightarrow>
            Inr (q1p_out, q2p_out, q1_out, q2_out))
         else
           (case value_network be st vec_obs vis_obs None of
              (q1p_out, q2p_out) \<Rightarrow>
            case value_network be st vec_obs vis_obs None of
              (q1_out, q2_out) \<Rightarrow>
            and_then (condense_q_streams cfg q1_out (batch_actions_long batch)) (\<lambda>q1_stream.
            and_then (condense_q_streams cfg q2_out (batch_actions_long batch)) (\<lambda>q2_stream.
              Inr (q1p_out, q2p_out, q1_stream, q2_stream)))))
        (\<lambda>(q1p_out, q2p_out, q1_stream, q2_stream).
           Inr \<lparr>fw_log_probs = log_probs, fw_sampled_values = sampled_values,
                fw_q1p_out = q1p_out, fw_q2p_out = q2p_out,
                fw_q1_stream = q1_stream, fw_q2_stream = q2_stream,
                fw_target_values =
                  target_network be (target_params st) (target_norm st) next_vec_obs
                    next_vis_obs\<rparr>))"

text \<open>The five losses of lines 440 to 447.\<close>

record losses =
  q1_loss :: fl
  q2_loss :: fl
  value_loss :: fl
  policy_loss :: fl
  entropy_loss :: fl

definition compute_losses ::
  "sac_config \<Rightarrow> ('n, 'o, 'g) sac_state \<Rightarrow> ('obs, 'vis) batch \<Rightarrow> forward \<Rightarrow> error + losses" where
  "compute_losses cfg st batch fw =
     (let masks = batch_masks batch;
          use_discrete = (\<not> use_continuous_act cfg);
          dones = batch_done batch
      in
      and_then (sac_q_loss cfg (fw_q1_stream fw) (fw_q2_stream fw) (fw_target_values fw) dones
                  (stream_rewards cfg batch) masks)
        (\<lambda>(q1l, q2l).
      and_then (sac_value_loss cfg (log_ent_coef st) (fw_log_probs fw) (fw_sampled_values fw)
                  (fw_q1p_out fw) (fw_q2p_out fw) masks use_discrete)
        (\<lambda>vl.
      and_then (sac_policy_loss cfg (log_ent_coef st) (fw_log_probs fw) (fw_q1p_out fw) masks
                  use_discrete)
        (\<lambda>pl.
      and_then (sac_entropy_loss cfg (log_ent_coef st) (target_entropy st) (fw_log_probs fw)
                  masks use_discrete)
        (\<lambda>el.
        Inr \<lparr>q1_loss = q1l, q2_loss = q2l, value_loss = vl, policy_loss = pl,
             entropy_loss = el\<rparr>)))))"

text \<open>
  \<^verbatim>\<open>optimizer.zero_grad(); loss.backward()\<close>: the buffers of the optimizer's
  parameters are cleared, then the gradients of the loss are added to the buffers. \<open>fwd\<close>
  is the state the forward passes ran on, \<open>v\<close> the value of the loss.
\<close>

definition zero_grad_backward ::
  "('n, 'o, 'g, 'obs, 'vis) backend \<Rightarrow> ('n, 'o, 'g) sac_state \<Rightarrow> ('obs, 'vis) batch \<Rightarrow>
   optimizer_id \<Rightarrow> loss_id \<Rightarrow> fl \<Rightarrow> ('n, 'o, 'g) sac_state \<Rightarrow> ('n, 'o, 'g) sac_state" where
  "zero_grad_backward be fwd batch opt loss v st =
     st\<lparr>grads := backward be loss fwd batch (zero_grad be opt (grads st)),
        calls := calls st @ [ZeroGrad opt, Backward loss v]\<rparr>"

text \<open>
  \<^verbatim>\<open>policy_optimizer.step()\<close>: Adam over the parameters of the policy's network body
  and distribution (lines 142 to 144 and 156).
\<close>

definition policy_optimizer_step ::
  "('n, 'o, 'g, 'obs, 'vis) backend \<Rightarrow> ('n, 'o, 'g) sac_state \<Rightarrow> ('n, 'o, 'g) sac_state" where
  "policy_optimizer_step be st =
     (case optimizer_step be PolicyOptimizer (policy_optimizer st) (grads st) (policy_params st) of
        (opt, ps) \<Rightarrow>
          st\<lparr>policy_params := ps, policy_optimizer := opt,
             calls := calls st @ [Step PolicyOptimizer]\<rparr>)"

text \<open>
  \<^verbatim>\<open>value_optimizer.step()\<close>: Adam over the parameters of the two Q networks followed
  by those of the policy's critic (lines 145 to 147 and 157). The step works in place, so
  each network gets back as many parameters as it had.
\<close>

definition value_optimizer_step ::
  "('n, 'o, 'g, 'obs, 'vis) backend \<Rightarrow> ('n, 'o, 'g) sac_state \<Rightarrow> ('n, 'o, 'g) sac_state" where
  "value_optimizer_step be st =
     (case optimizer_step be ValueOptimizer (value_optimizer st) (grads st)
             (q1_params st @ q2_params st @ critic_params st) of
        (opt, ps) \<Rightarrow>
          st\<lparr>q1_params := take (length (q1_params st)) ps,
             q2_params := take (length (q2_params st)) (drop (length (q1_params st)) ps),
             critic_params := drop (length (q1_params st) + length (q2_params st)) ps,
             value_optimizer := opt,
             calls := calls st @ [Step ValueOptimizer]\<rparr>)"

text \<open>\<^verbatim>\<open>entropy_optimizer.step()\<close>: Adam over the log entropy coefficients (line 158).\<close>

definition entropy_optimizer_step ::
  "('n, 'o, 'g, 'obs, 'vis) backend \<Rightarrow> ('n, 'o, 'g) sac_state \<Rightarrow> ('n, 'o, 'g) sac_state" where
  "entropy_optimizer_step be st =
     (case coefficient_step be (entropy_optimizer st) (grads st) (log_ent_coef st) of
        (opt, coef) \<Rightarrow>
          st\<lparr>log_ent_coef := coef, entropy_optimizer := opt,
             calls := calls st @ [Step EntropyOptimizer]\<rparr>)"

text \<open>Lines 449 to 461.\<close>

definition optimizer_steps ::
  "('n, 'o, 'g, 'obs, 'vis) backend \<Rightarrow> ('n, 'o, 'g) sac_state \<Rightarrow> ('obs, 'vis) batch \<Rightarrow>
   losses \<Rightarrow> ('n, 'o, 'g) sac_state" where
  "optimizer_steps be fwd batch ls =
     (let total_value_loss = q1_loss ls + q2_loss ls + value_loss ls;
          st1 = zero_grad_backward be fwd batch PolicyOptimizer PolicyLoss (policy_loss ls) fwd;
          st2 = policy_optimizer_step be st1;
          st3 = zero_grad_backward be fwd batch ValueOptimizer TotalValueLoss total_value_loss st2;
          st4 = value_optimizer_step be st3;
          st5 = zero_grad_backward be fwd batch EntropyOptimizer EntropyLoss (entropy_loss ls) st4
      in entropy_optimizer_step be st5)"

text \<open>
  Line 464: the target network follows the policy's critic. The call is recorded, and the
  target's parameters are those \<^verbatim>\<open>soft_update\<close> leaves, also when it raises.
\<close>

definition update_target ::
  "sac_config \<Rightarrow> ('n, 'o, 'g) sac_state \<Rightarrow> error option \<times> ('n, 'o, 'g) sac_state" where
  "update_target cfg st =
     (case soft_update (critic_params st) (target_params st) (tau cfg) of
        (r, target') \<Rightarrow>
          (r, st\<lparr>target_params := target', calls := calls st @ [SoftUpdate (tau cfg)]\<rparr>))"

text \<open>
  A value of the returned dictionary: \<^verbatim>\<open>numpy()\<close> of a scalar tensor, or of a
  tensor with one axis.
\<close>

datatype stat_value = Scalar fl | Array vec

text \<open>Lines 465 to 474.\<close>

definition update_stats :: "losses \<Rightarrow> vec \<Rightarrow> stat_value dict" where
  "update_stats ls log_ent_coef_now =
     [(''Losses/Policy Loss'', Scalar (fabs (policy_loss ls))),
      (''Losses/Value Loss'', Scalar (value_loss ls)),
      (''Losses/Q1 Loss'', Scalar (q1_loss ls)),
      (''Losses/Q2 Loss'', Scalar (q2_loss ls)),
      (''Policy/Entropy Coeff'', Array (map fexp log_ent_coef_now))]"

text \<open>
  \<^verbatim>\<open>update\<close> (lines 358 to 476): the result, or the exception raised, together with
  the state the call leaves behind. \<open>num_sequences\<close> is not used by the source.
\<close>

definition update ::
  "('n, 'o, 'g, 'obs, 'vis) backend \<Rightarrow> sac_config \<Rightarrow> ('n, 'o, 'g) sac_state \<Rightarrow>
   ('obs, 'vis) batch \<Rightarrow> nat \<Rightarrow> (error + stat_value dict) \<times> ('n, 'o, 'g) sac_state" where
  "update be cfg st batch num_sequences =
     (case sequence_memories (sequence_length cfg) (batch_memory batch) of
        Inl e \<Rightarrow> (Inl e, st)
      | Inr memories \<Rightarrow>
          (let fwd = copy_normalization st in
           case and_then (forward_pass be cfg fwd batch memories) (compute_losses cfg fwd batch) of
             Inl e \<Rightarrow> (Inl e, fwd)
           | Inr ls \<Rightarrow>
               (case update_target cfg (optimizer_steps be fwd batch ls) of
                  (Some e, st') \<Rightarrow> (Inl e, st')
                | (None, st') \<Rightarrow> (Inr (update_stats ls (log_ent_coef st')), st'))))"

text \<open>\<^verbatim>\<open>update_reward_signals\<close> (lines 478 to 481).\<close>

definition update_reward_signals ::
  "('n, 'o, 'g) sac_state \<Rightarrow> 'b dict \<Rightarrow> nat \<Rightarrow> stat_value dict \<times> ('n, 'o, 'g) sac_state" where
  "update_reward_signals st reward_signal_minibatches num_sequences = ([], st)"

section \<open>The losses as the specification writes them\<close>




text \<open>
  What \<^verbatim>\<open>soft_update\<close> leaves in an entry of the target when \<open>tau\<close> is one and when
  \<open>tau\<close> is zero, for the entry \<open>s\<close> of the source and the entry \<open>t\<close> of the target: the
  source's entry, respectively the target's own, except that a \<open>-0.0\<close> comes out as
  \<open>+0.0\<close> unless the other entry has a negative sign too.
\<close>

definition hard_copy_entry :: "sfl \<Rightarrow> sfl \<Rightarrow> sfl" where
  "hard_copy_entry s t = (if s = SNZero \<and> \<not> s_negative t then SFin 0 else s)"

definition kept_entry :: "sfl \<Rightarrow> sfl \<Rightarrow> sfl" where
  "kept_entry s t = (if t = SNZero \<and> \<not> s_negative s then SFin 0 else t)"

text \<open>
  The condensed Q-value as the specification describes it: for the sample \<open>b\<close> the mean,
  over the branches \<open>i\<close>, of the Q-value at the action index chosen in the branch. The
  values of the branch \<open>i\<close> follow those of the branches before it in the row of the
  sample.
\<close>

definition selected_q :: "nat list \<Rightarrow> nat list list \<Rightarrow> mat \<Rightarrow> nat \<Rightarrow> nat \<Rightarrow> fl" where
  "selected_q action_size discrete_actions m b i =
     m ! b ! (sum_list (take i action_size) + discrete_actions ! i ! b)"

definition condensed_spec :: "nat list \<Rightarrow> nat list list \<Rightarrow> mat \<Rightarrow> tensor" where
  "condensed_spec action_size discrete_actions m =
     Mat (map (\<lambda>b. [mean (map (selected_q action_size discrete_actions m b)
                           [0..<length action_size])])
            [0..<length m])"

section \<open>Example inputs\<close>

text \<open>
  A continuous policy with one action dimension and the single reward stream
  \<open>extrinsic\<close>, on a batch of two time steps.
\<close>

definition ex_cfg :: sac_config where
  "ex_cfg = \<lparr>tau = SFin (1/200), init_entcoef = Fin 1, act_size = [1],
     use_continuous_act = True, stream_names = [''extrinsic''], gammas = [Fin (1/2)],
     use_dones_in_backup = [(''extrinsic'', 1)], sequence_length = 1, use_vis_obs = False,
     num_visual_encoders = 0\<rparr>"


text \<open>
  Collaborators for the examples: the policy and the networks return fixed tensors for a
  batch of two time steps, a normalizer is a number, so is the internal state of an
  optimizer (the number of its steps) and so are the gradient buffers (the number of
  backward passes since they were cleared); a step adds one to every parameter.
\<close>

definition ex_backend :: "(nat, nat, nat, unit, unit) backend" where
  "ex_backend = \<lparr>
     sample_actions = (\<lambda>pp cp n vo vi am mem sl alp.
        ([[Fin 0], [Fin 0]], [[Fin 0], [Fin 0]], [Fin 0, Fin 0],
         [(''extrinsic'', [Fin 2, Fin 2])])),
     q_network = (\<lambda>ps n vo vi a. [(''extrinsic'', Vec [Fin 1, Fin 1])]),
     target_network = (\<lambda>ps n vo vi. [(''extrinsic'', [Fin 0, Fin 0])]),
     zero_grad = (\<lambda>opt g. 0),
     backward = (\<lambda>l fwd b g. Suc g),
     optimizer_step = (\<lambda>opt s g ps. (Suc s, map (map (\<lambda>x. x + SFin 1)) ps)),
     coefficient_step = (\<lambda>s g coef. (Suc s, map (\<lambda>x. x + Fin 1) coef))\<rparr>"

definition ex_state :: "(nat, nat, nat) sac_state" where
  "ex_state = \<lparr>policy_params = [[SFin 0]], critic_params = [[SFin 1]],
     q1_params = [[SFin 0]], q2_params = [[SFin 0]], target_params = [[SFin 0]],
     log_ent_coef = [Fin 0],
     target_entropy = TEContinuous (Fin (- 1)), policy_norm = 1, q1_norm = 0, q2_norm = 0,
     target_norm = 0, policy_optimizer = 0, value_optimizer = 0, entropy_optimizer = 0,
     grads = 0, calls = []\<rparr>"

definition ex_batch :: "(unit, unit) batch" where
  "ex_batch = \<lparr>batch_rewards = (\<lambda>name. [Fin 0, Fin 0]), batch_vector_obs = (),
     batch_next_vector_in = (), batch_action_mask = [], batch_actions = [[Fin 0], [Fin 0]],
     batch_actions_long = [], batch_memory = [], batch_visual_obs = (\<lambda>i. ()),
     batch_next_visual_obs = (\<lambda>i. ()), batch_masks = [Fin 1, Fin 1],
     batch_done = [Fin 0, Fin 0]\<rparr>"

text \<open>The same policy, whose value estimate of the first time step is NaN.\<close>

definition ex_backend_nan :: "(nat, nat, nat, unit, unit) backend" where
  "ex_backend_nan = ex_backend\<lparr>
     sample_actions := (\<lambda>pp cp n vo vi am mem sl alp.
        ([[Fin 0], [Fin 0]], [[Fin 0], [Fin 0]], [Fin 0, Fin 0],
         [(''extrinsic'', [NaN, Fin 2])]))\<rparr>"

text \<open>
  A discrete policy with two branches of two actions each, on a batch of one time step
  in which the action 0 of the first branch and the action 1 of the second were taken.
\<close>

definition ex_cfg_discrete :: sac_config where
  "ex_cfg_discrete = ex_cfg\<lparr>act_size := [2, 2], use_continuous_act := False\<rparr>"

definition ex_backend_discrete :: "(nat, nat, nat, unit, unit) backend" where
  "ex_backend_discrete = ex_backend\<lparr>
     sample_actions := (\<lambda>pp cp n vo vi am mem sl alp.
        ([[Fin 0, Fin 1]], [[Fin 0, Fin 0, Fin 0, Fin 0]], [Fin 0],
         [(''extrinsic'', [Fin 2])])),
     q_network := (\<lambda>ps n vo vi a. [(''extrinsic'', Mat [[Fin 1, Fin 2, Fin 3, Fin 4]])]),
     target_network := (\<lambda>ps n vo vi. [(''extrinsic'', [Fin 0])])\<rparr>"

definition ex_state_discrete :: "(nat, nat, nat) sac_state" where
  "ex_state_discrete = ex_state\<lparr>log_ent_coef := [Fin 0, Fin 0],
     target_entropy := TEDiscrete [Fin (2/10 * ln 2), Fin (2/10 * ln 2)]\<rparr>"

definition ex_batch_discrete :: "(unit, unit) batch" where
  "ex_batch_discrete = ex_batch\<lparr>batch_rewards := (\<lambda>name. [Fin 0]),
     batch_actions := [[Fin 0, Fin 1]], batch_actions_long := [[0], [1]],
     batch_masks := [Fin 1], batch_done := [Fin 0]\<rparr>"


section \<open>Basic facts\<close>

lemma and_then_Inl [simp]: "and_then (Inl e) f = Inl e"
  by (simp add: and_then_def)

lemma and_then_Inr [simp]: "and_then (Inr x) f = f x"
  by (simp add: and_then_def)

lemma sequence_err_map2:
  "sequence_err (map (\<lambda>(a, b). Inr (g a b)) ps) = Inr (map (\<lambda>(a, b). g a b) ps)"
  by (induction ps) auto

lemma vec_op_same_length:
  "length xs = length ys \<Longrightarrow> vec_op g xs ys = Inr (map2 g xs ys)"
  by (simp add: vec_op_def broadcast2_def sequence_err_map2)



section \<open>The Q loss\<close>





text \<open>
  C1. The Q loss of a batch of two time steps whose second step is masked out, evaluated
  twice: the inputs differ only in the reward of the masked-out step, and the losses
  differ.
\<close>

theorem sac_q_loss_masked_step:
  "sac_q_loss ex_cfg [(''extrinsic'', Vec [Fin 0, Fin 0])] [(''extrinsic'', Vec [Fin 0, Fin 0])]
     [(''extrinsic'', [Fin 0, Fin 0])] [Fin 0, Fin 0] [(''extrinsic'', [Fin 0, Fin 0])]
     [Fin 1, Fin 0]
   = Inr (Fin 0, Fin 0) \<and>
   sac_q_loss ex_cfg [(''extrinsic'', Vec [Fin 0, Fin 0])] [(''extrinsic'', Vec [Fin 0, Fin 0])]
     [(''extrinsic'', [Fin 0, Fin 0])] [Fin 0, Fin 0] [(''extrinsic'', [Fin 0, Fin 2])]
     [Fin 1, Fin 0]
   = Inr (Fin (1/2), Fin (1/2))"
  by (simp add: sac_q_loss_def ex_cfg_def q_loss_stream_def getitem_def getindex_def vec_op_def
      broadcast2_def mse_loss_def mean_def mean_stack_def enumerate_eq_zip minus_fl_def
      squeeze_def)


section \<open>The Polyak update\<close>

lemma sfl_mult_commute: "(x::sfl) * y = y * x"
  by (auto simp: times_sfl_def mult.commute)

lemma soft_update_param_matched:
  assumes "length source_param = length target_param"
  shows "soft_update_param source_param target_param tau' =
    Inr (map2 (\<lambda>s t. (SFin 1 - tau') * t + tau' * s) source_param target_param)"
proof -
  have "map2 (+) (map (\<lambda>t. t * (SFin 1 - tau')) target_param) (map (\<lambda>s. s * tau') source_param)
      = map2 (\<lambda>s t. (SFin 1 - tau') * t + tau' * s) source_param target_param"
    using assms by (intro nth_equalityI) (simp_all add: sfl_mult_commute)
  then show ?thesis
    using assms by (simp add: soft_update_param_def broadcast2_def sequence_err_map2
        copy_into_def)
qed

lemma soft_update_matched:
  assumes "list_all2 (\<lambda>s t. length s = length t) source target"
  shows "soft_update source target tau' =
    (None, map2 (map2 (\<lambda>s t. (SFin 1 - tau') * t + tau' * s)) source target)"
  using assms
  by (induction rule: list_all2_induct) (simp_all add: soft_update_param_matched)

lemma hard_copy_entry_eq:
  "s_finite t \<Longrightarrow> (SFin 1 - SFin 1) * t + SFin 1 * s = hard_copy_entry s t"
  by (cases t; cases s)
    (auto simp: minus_sfl_def plus_sfl_def times_sfl_def hard_copy_entry_def)

lemma kept_entry_eq:
  "s_finite s \<Longrightarrow> (SFin 1 - SFin 0) * t + SFin 0 * s = kept_entry s t"
  by (cases t; cases s)
    (auto simp: minus_sfl_def plus_sfl_def times_sfl_def kept_entry_def)

lemma map2_hard_copy:
  assumes "length s = length t" "\<forall>x \<in> set t. s_finite x"
  shows "map2 (\<lambda>s t. (SFin 1 - SFin 1) * t + SFin 1 * s) s t = map2 hard_copy_entry s t"
  using assms by (intro nth_equalityI) (simp_all add: hard_copy_entry_eq)

lemma map2_kept:
  assumes "length s = length t" "\<forall>x \<in> set s. s_finite x"
  shows "map2 (\<lambda>s t. (SFin 1 - SFin 0) * t + SFin 0 * s) s t = map2 kept_entry s t"
  using assms by (intro nth_equalityI) (simp_all add: kept_entry_eq)

lemma params_hard_copy:
  assumes "list_all2 (\<lambda>s t. length s = length t) source target"
    and "\<forall>p \<in> set target. \<forall>x \<in> set p. s_finite x"
  shows "map2 (map2 (\<lambda>s t. (SFin 1 - SFin 1) * t + SFin 1 * s)) source target =
    map2 (map2 hard_copy_entry) source target"
  using assms
  by (induction rule: list_all2_induct) (simp_all add: map2_hard_copy)

lemma params_kept:
  assumes "list_all2 (\<lambda>s t. length s = length t) source target"
    and "\<forall>p \<in> set source. \<forall>x \<in> set p. s_finite x"
  shows "map2 (map2 (\<lambda>s t. (SFin 1 - SFin 0) * t + SFin 0 * s)) source target =
    map2 (map2 kept_entry) source target"
  using assms
  by (induction rule: list_all2_induct) (simp_all add: map2_kept)

lemma map2_hard_copy_no_negative_zero:
  assumes "length s = length t" "SNZero \<notin> set s"
  shows "map2 hard_copy_entry s t = s"
  using assms by (intro nth_equalityI) (auto simp: hard_copy_entry_def in_set_conv_nth)

lemma map2_kept_no_negative_zero:
  assumes "length s = length t" "SNZero \<notin> set t"
  shows "map2 kept_entry s t = t"
  using assms by (intro nth_equalityI) (auto simp: kept_entry_def in_set_conv_nth)

lemma params_hard_copy_no_negative_zero:
  assumes "list_all2 (\<lambda>s t. length s = length t) source target"
    and "\<forall>p \<in> set source. SNZero \<notin> set p"
  shows "map2 (map2 hard_copy_entry) source target = source"
  using assms
  by (induction rule: list_all2_induct) (simp_all add: map2_hard_copy_no_negative_zero)

lemma params_kept_no_negative_zero:
  assumes "list_all2 (\<lambda>s t. length s = length t) source target"
    and "\<forall>p \<in> set target. SNZero \<notin> set p"
  shows "map2 (map2 kept_entry) source target = target"
  using assms
  by (induction rule: list_all2_induct) (simp_all add: map2_kept_no_negative_zero)

text \<open>
  C4, as the claim states it, fails on three inputs. With \<open>tau = 1\<close> a target entry \<open>inf\<close>
  leaves NaN where the source has 2, and a source entry \<open>-0.0\<close> over the target entry 5
  comes out as \<open>+0.0\<close>: the target is not bit-identical to the source. With \<open>tau = 0\<close> a
  source entry \<open>inf\<close> turns the target entry 3 into NaN: the target is not unchanged.
\<close>

theorem soft_update_not_identical:
  "soft_update [[SFin 2, SFin 2]] [[SPInf, SFin 4]] (SFin 1) = (None, [[SNaN, SFin 2]]) \<and>
   soft_update [[SNZero]] [[SFin 5]] (SFin 1) = (None, [[SFin 0]]) \<and>
   soft_update [[SPInf]] [[SFin 3]] (SFin 0) = (None, [[SNaN]])"
  by (simp add: soft_update_param_def broadcast2_def copy_into_def minus_sfl_def plus_sfl_def
      times_sfl_def)

text \<open>
  C4, amended. For a source and a target network with matching parameters (as many
  parameter tensors, each of the size of its counterpart), \<open>soft_update\<close> sets every entry
  of the target to \<open>(1 - tau) * target + tau * source\<close>. With \<open>tau = 1\<close> and a target of
  finite entries, as at construction, every entry of the target becomes the source's
  entry, except that a \<open>-0.0\<close> of the source becomes \<open>+0.0\<close> where the target's entry is not
  negative: a source without \<open>-0.0\<close> is copied bit for bit. With \<open>tau = 0\<close> and a source of
  finite entries every entry of the target stays as it is, except that a \<open>-0.0\<close> of the
  target becomes \<open>+0.0\<close> where the source's entry is not negative: a target without
  \<open>-0.0\<close> is unchanged.
\<close>

theorem soft_update_polyak:
  assumes "list_all2 (\<lambda>s t. length s = length t) source target"
  shows "soft_update source target tau' =
      (None, map2 (map2 (\<lambda>s t. (SFin 1 - tau') * t + tau' * s)) source target) \<and>
    ((\<forall>p \<in> set target. \<forall>x \<in> set p. s_finite x) \<longrightarrow>
       soft_update source target (SFin 1) = (None, map2 (map2 hard_copy_entry) source target) \<and>
       init_target_network source target = (None, map2 (map2 hard_copy_entry) source target) \<and>
       ((\<forall>p \<in> set source. SNZero \<notin> set p) \<longrightarrow>
          soft_update source target (SFin 1) = (None, source) \<and>
          init_target_network source target = (None, source))) \<and>
    ((\<forall>p \<in> set source. \<forall>x \<in> set p. s_finite x) \<longrightarrow>
       soft_update source target (SFin 0) = (None, map2 (map2 kept_entry) source target) \<and>
       ((\<forall>p \<in> set target. SNZero \<notin> set p) \<longrightarrow>
          soft_update source target (SFin 0) = (None, target)))"
  using assms
  by (simp add: soft_update_matched params_hard_copy params_kept init_target_network_def
      params_hard_copy_no_negative_zero params_kept_no_negative_zero)

theorem soft_update_polyak_witness:
  "soft_update [[SFin 1, SNZero], [SFin 3]] [[SFin 0, SFin 4], [SFin (- 5)]] (SFin (1/2)) =
     (None, [[SFin (1/2), SFin 2], [SFin (- 1)]]) \<and>
   soft_update [[SFin 1, SNZero], [SFin 3]] [[SFin 0, SFin 4], [SFin (- 5)]] (SFin 1) =
     (None, [[SFin 1, SFin 0], [SFin 3]]) \<and>
   init_target_network [[SFin 1, SFin 2], [SFin 3]] [[SFin 0, SFin 4], [SFin (- 5)]] =
     (None, [[SFin 1, SFin 2], [SFin 3]]) \<and>
   soft_update [[SFin 1, SNZero], [SFin 3]] [[SFin 0, SFin 4], [SFin (- 5)]] (SFin 0) =
     (None, [[SFin 0, SFin 4], [SFin (- 5)]])"
  using soft_update_polyak [of "[[SFin 1, SNZero], [SFin 3]]" "[[SFin 0, SFin 4], [SFin (- 5)]]"
      "SFin (1/2)"]
    soft_update_polyak [of "[[SFin 1, SFin 2], [SFin 3]]" "[[SFin 0, SFin 4], [SFin (- 5)]]"
      "SFin 1"]
  by (simp add: minus_sfl_def plus_sfl_def times_sfl_def hard_copy_entry_def kept_entry_def)


section \<open>Construction\<close>

lemma round_half_even_of_int [simp]: "round_half_even (of_int m) = m"
  by (simp add: round_half_even_def)

lemma float32_of_real_exact:
  assumes "x \<noteq> 0"
    and "x / 2 powr (of_int (max (\<lfloor>log 2 \<bar>x\<bar>\<rfloor> - 23) (- 149))) = of_int m"
    and "\<bar>x\<bar> < 2 ^ 128"
  shows "float32_of_real x = Fin x"
proof -
  let ?p = "2 powr (of_int (max (\<lfloor>log 2 \<bar>x\<bar>\<rfloor> - 23) (- 149))) :: real"
  have p: "0 < ?p" by simp
  from assms(2) p have x: "of_int m * ?p = x"
    by (simp add: field_simps)
  show ?thesis
    using assms(1,3) unfolding float32_of_real_def Let_def assms(2) round_half_even_of_int x
    by simp
qed

lemma floor_log2_nat:
  assumes "2 ^ k \<le> n" "n < 2 ^ Suc k"
  shows "\<lfloor>log 2 (real n)\<rfloor> = int k"
proof -
  have "0 < n" using assms(1) by (cases n) auto
  then show ?thesis
    using floor_log_nat_eq_powr_iff [of 2 n k] assms by simp
qed

lemma float32_of_small_nat:
  assumes "n < 2 ^ 24"
  shows "float32_of_real (real n) = Fin (real n)"
proof (cases "n = 0")
  case True
  then show ?thesis by (simp add: float32_of_real_def)
next
  case False
  define k where "k = nat \<lfloor>log 2 (real n)\<rfloor>"
  have n1: "1 \<le> real n" using False by simp
  then have "0 \<le> log 2 (real n)" by simp
  then have fl: "\<lfloor>log 2 (real n)\<rfloor> = int k"
    by (simp add: k_def)
  have n0: "0 < n" using False by simp
  from fl have bounds: "2 ^ k \<le> n \<and> n < 2 ^ (k + 1)"
    using floor_log_nat_eq_powr_iff [of 2 n k] n0 by simp
  have small: "(2::nat) ^ k < 2 ^ 24"
    using bounds assms by linarith
  have k: "k < 24"
  proof (rule ccontr)
    assume "\<not> k < 24"
    then have "24 \<le> k" by simp
    then have "(2::nat) ^ 24 \<le> 2 ^ k" by (rule power_increasing) simp
    with small show False by linarith
  qed
  have e: "max (\<lfloor>log 2 \<bar>real n\<bar>\<rfloor> - 23) (- 149) = int k - 23"
    by (simp add: fl)
  have pw: "2 powr (of_int (int k - 23)) = (1 / 2 ^ (23 - k) :: real)"
  proof -
    have "(of_int (int k - 23) :: real) = - real (23 - k)"
      using k by simp
    then have "(2::real) powr (of_int (int k - 23)) = 2 powr (- real (23 - k))"
      by (simp only:)
    also have "\<dots> = 1 / 2 ^ (23 - k)"
      by (simp add: powr_minus powr_realpow inverse_eq_divide)
    finally show ?thesis .
  qed
  have q: "real n / 2 powr (of_int (max (\<lfloor>log 2 \<bar>real n\<bar>\<rfloor> - 23) (- 149))) =
      of_int (int n * 2 ^ (23 - k))"
    unfolding e pw by simp
  have "real n < 2 ^ 24"
    using assms by (metis of_nat_less_iff of_nat_numeral of_nat_power)
  also have "\<dots> < (2::real) ^ 128" by simp
  finally have b: "\<bar>real n\<bar> < 2 ^ 128" by simp
  have nz: "real n \<noteq> 0" using False by simp
  show ?thesis
    by (rule float32_of_real_exact [OF nz q b])
qed

lemma float32_of_two_power_24: "float32_of_real 16777216 = Fin 16777216"
proof -
  have fl: "\<lfloor>log 2 (16777216::real)\<rfloor> = 24"
    using floor_log2_nat [of 24 16777216] by simp
  have q: "(16777216::real) / 2 powr (of_int (max (\<lfloor>log 2 \<bar>16777216\<bar>\<rfloor> - 23) (- 149))) =
      of_int 8388608"
    by (simp add: fl)
  have nz: "(16777216::real) \<noteq> 0" and b: "\<bar>16777216::real\<bar> < 2 ^ 128"
    by simp_all
  show ?thesis
    by (rule float32_of_real_exact [OF nz q b])
qed

lemma float32_of_nat_exact:
  assumes "n \<le> 2 ^ 24"
  shows "float32_of_real (real n) = Fin (real n)"
proof (cases "n = 2 ^ 24")
  case True
  then show ?thesis using float32_of_two_power_24 by simp
next
  case False
  with assms have "n < 2 ^ 24" by simp
  then show ?thesis by (rule float32_of_small_nat)
qed

lemma float32_of_two_power_24_plus_one: "float32_of_real 16777217 = Fin 16777216"
proof -
  have fl: "\<lfloor>log 2 (16777217::real)\<rfloor> = 24"
    using floor_log2_nat [of 24 16777217] by simp
  have fr: "\<lfloor>16777217 / 2 :: real\<rfloor> = 8388608"
    by (simp add: floor_eq_iff)
  have "round_half_even (16777217 / 2) = 8388608"
    by (simp add: round_half_even_def fr)
  then show ?thesis
    by (simp add: float32_of_real_def fl)
qed

text \<open>
  C5, as the claim states it, fails for the dimensionality \<open>d = 2 ^ 24 + 1\<close>: the cast to
  float32 rounds \<open>d\<close>, and the target entropy is \<open>- 16777216\<close>, not \<open>- d\<close>.
\<close>

theorem init_target_entropy_rounds:
  "init_target_entropy (ex_cfg\<lparr>use_continuous_act := True, act_size := [16777217]\<rparr>) =
     Inr (TEContinuous (Fin (- 16777216))) \<and>
   Fin (- 16777216) \<noteq> Fin (- 1 * real (16777217::nat))"
  by (simp add: init_target_entropy_def getindex_def continuous_target_entropy_scale_def
      astype_float32_def float32_of_two_power_24_plus_one)

text \<open>
  C5, amended. The target entropy set at construction is exactly \<open>- 1.0 * d\<close> for a
  continuous action space of dimensionality \<open>d\<close> (the first entry of \<open>act_size\<close>) up to
  \<open>2 ^ 24\<close>, the integers that float32 holds exactly; for a discrete action space it is the
  list of \<open>0.2 * log n\<close> over the branch cardinalities \<open>n\<close>, with the logarithm cast to
  float32 (it is \<open>-inf\<close> for \<open>n = 0\<close>).
\<close>

theorem init_target_entropy_values:
  "(d \<le> 2 ^ 24 \<longrightarrow>
     init_target_entropy (cfg\<lparr>use_continuous_act := True, act_size := d # ds\<rparr>) =
       Inr (TEContinuous (Fin (- 1 * real d)))) \<and>
   ((\<forall>n \<in> set ns. n < 2 ^ 64) \<longrightarrow>
     init_target_entropy (cfg\<lparr>use_continuous_act := False, act_size := ns\<rparr>) =
       Inr (TEDiscrete
              (map (\<lambda>n. if n = 0 then NInf else Fin (2/10) * float32_of_real (ln (real n)))
                 ns)))"
proof -
  have cont: "init_target_entropy (cfg\<lparr>use_continuous_act := True, act_size := d # ds\<rparr>) =
      Inr (TEContinuous (Fin (- 1 * real d)))" if d: "d \<le> 2 ^ 24"
  proof -
    have "d < 2 ^ 64"
    proof -
      have "(2::nat) ^ 24 < 2 ^ 64" by simp
      with d show ?thesis by linarith
    qed
    moreover have "Fin (- 1) * Fin 1 * Fin (real d) = Fin (- 1 * real d)" by simp
    ultimately show ?thesis
      using d by (simp add: init_target_entropy_def getindex_def
          continuous_target_entropy_scale_def astype_float32_def float32_of_nat_exact)
  qed
  have disc: "sequence_err
        (map (\<lambda>i. if i < 2 ^ 64 then
                     Inr (discrete_target_entropy_scale * astype_float32 (flog (Fin (real i))))
                   else Inl TypeError) ns) =
      Inr (map (\<lambda>n. if n = 0 then NInf else Fin (2/10) * float32_of_real (ln (real n))) ns)"
    if "\<forall>n \<in> set ns. n < 2 ^ 64"
    using that
    by (induction ns)
      (simp_all add: discrete_target_entropy_scale_def astype_float32_def inf_of_def)
  show ?thesis
    using cont disc by (simp add: init_target_entropy_def)
qed

theorem init_target_entropy_values_witness:
  "init_target_entropy (ex_cfg\<lparr>use_continuous_act := True, act_size := [3]\<rparr>) =
     Inr (TEContinuous (Fin (- 3))) \<and>
   init_target_entropy (ex_cfg\<lparr>use_continuous_act := False, act_size := [1, 2]\<rparr>) =
     Inr (TEDiscrete [Fin 0, Fin (2/10) * float32_of_real (ln 2)])"
  using init_target_entropy_values [where cfg = ex_cfg and d = 3 and ds = "[]"
      and ns = "[1, 2]"]
  by (simp add: float32_of_real_def)


section \<open>Condensing the Q streams\<close>

lemma sequence_err_map_Inr:
  "(\<And>x. x \<in> set xs \<Longrightarrow> f x = Inr (g x)) \<Longrightarrow> sequence_err (map f xs) = Inr (map g xs)"
  by (induction xs) simp_all

lemma fl_one_mult_finite: "is_finite x \<Longrightarrow> Fin 1 * x = x"
  by (cases x) simp_all

lemma fl_zero_mult_finite: "is_finite x \<Longrightarrow> Fin 0 * x = Fin 0"
  by (cases x) simp_all

lemma fl_add_zero_right: "(c::fl) + Fin 0 = c"
  by (cases c) simp_all

lemma fl_zero_add_left: "Fin 0 + (c::fl) = c"
  by (cases c) simp_all

lemma fsum_delta_list:
  "distinct ks \<Longrightarrow>
   fsum (map (\<lambda>k. if k = a then c else Fin 0) ks) = (if a \<in> set ks then c else Fin 0)"
  by (induction ks) (auto simp: fl_add_zero_right fl_zero_add_left)

lemma one_hot_select:
  assumes "length r = n" "a < n" "\<forall>x \<in> set r. is_finite x"
  shows "fsum (map2 (*) (map (\<lambda>k. if k = a then Fin 1 else Fin 0) [0..<n]) r) = r ! a"
proof -
  have "map2 (*) (map (\<lambda>k. if k = a then Fin 1 else Fin 0) [0..<n]) r =
      map (\<lambda>k. if k = a then r ! a else Fin 0) [0..<n]"
    using assms
    by (intro nth_equalityI) (simp_all add: fl_one_mult_finite fl_zero_mult_finite)
  then show ?thesis
    using assms(2) by (simp add: fsum_delta_list)
qed

lemma branch_offsets_nth:
  "branch_offsets start as =
     map (\<lambda>i. (start + sum_list (take i as), as ! i)) [0..<length as]"
proof (induction as arbitrary: start)
  case Nil
  then show ?case by simp
next
  case (Cons a as)
  have "map (\<lambda>i. (start + sum_list (take i (a # as)), (a # as) ! i)) [0..<length (a # as)] =
      (start, a) # map (\<lambda>i. (start + sum_list (take (Suc i) (a # as)), (a # as) ! Suc i))
                     [0..<length as]"
    by (simp add: upt_conv_Cons map_Suc_upt [symmetric] del: upt_Suc)
  also have "\<dots> = (start, a) # map (\<lambda>i. (start + a + sum_list (take i as), as ! i))
                     [0..<length as]"
    by (simp add: add.assoc)
  finally show ?case
    using Cons.IH [of "start + a"] by simp
qed

lemma break_into_branches_nth:
  "break_into_branches m action_size =
     map (\<lambda>i. map (\<lambda>row. take (action_size ! i) (drop (sum_list (take i action_size)) row)) m)
       [0..<length action_size]"
  by (simp add: break_into_branches_def branch_offsets_nth)

lemma actions_to_onehot_in_range:
  assumes "length discrete_actions = length action_size"
    and "\<forall>i < length action_size. \<forall>a \<in> set (discrete_actions ! i). a < action_size ! i"
  shows "actions_to_onehot discrete_actions action_size =
    Inr (map (\<lambda>i. map (\<lambda>a. map (\<lambda>k. if k = a then Fin 1 else Fin 0) [0..<action_size ! i])
                     (discrete_actions ! i))
           [0..<length action_size])"
proof -
  let ?oh = "\<lambda>n a. map (\<lambda>k. if k = a then Fin 1 else Fin 0 :: fl) [0..<n]"
  let ?g = "\<lambda>p. map (?oh (action_size ! fst p)) (snd p)"
  have step: "(case p of (i, act) \<Rightarrow>
        and_then (getindex action_size i) (\<lambda>n. sequence_err (map (one_hot n) act))) =
      Inr (?g p)" if "p \<in> set (enumerate 0 discrete_actions)" for p
  proof -
    obtain i act where p: "p = (i, act)" by (cases p)
    from that p have i: "i < length discrete_actions" and act: "act = discrete_actions ! i"
      by (auto simp: in_set_enumerate_eq)
    from i assms act have "\<forall>a \<in> set act. a < action_size ! i" by simp
    then have "sequence_err (map (one_hot (action_size ! i)) act) =
        Inr (map (?oh (action_size ! i)) act)"
      by (intro sequence_err_map_Inr) (simp add: one_hot_def)
    then show ?thesis
      using i assms(1) p by (simp add: getindex_def)
  qed
  have "actions_to_onehot discrete_actions action_size =
      Inr (map ?g (enumerate 0 discrete_actions))"
    unfolding actions_to_onehot_def by (rule sequence_err_map_Inr) (rule step)
  also have "map ?g (enumerate 0 discrete_actions) =
      map (\<lambda>i. map (?oh (action_size ! i)) (discrete_actions ! i)) [0..<length action_size]"
    using assms(1) by (intro nth_equalityI) (simp_all add: nth_enumerate_eq)
  finally show ?thesis .
qed

lemma branch_products:
  assumes i: "i < length action_size"
    and acts: "length acts = length m" "\<forall>a \<in> set acts. a < action_size ! i"
    and rows: "\<forall>row \<in> set m. length row = sum_list action_size \<and> (\<forall>x \<in> set row. is_finite x)"
  shows "and_then
      (mat_op (*)
         (map (\<lambda>a. map (\<lambda>k. if k = a then Fin 1 else Fin 0) [0..<action_size ! i]) acts)
         (map (\<lambda>row. take (action_size ! i) (drop (sum_list (take i action_size)) row)) m))
      (\<lambda>prod. Inr (map fsum prod)) =
    Inr (map (\<lambda>b. m ! b ! (sum_list (take i action_size) + acts ! b)) [0..<length m])"
proof -
  let ?n = "action_size ! i"
  let ?off = "sum_list (take i action_size)"
  let ?oh = "\<lambda>a. map (\<lambda>k. if k = a then Fin 1 else Fin 0 :: fl) [0..<?n]"
  let ?br = "\<lambda>row. take ?n (drop ?off row)"
  have "sum_list (take i action_size) + action_size ! i = sum_list (take (Suc i) action_size)"
    using i by (simp add: take_Suc_conv_app_nth)
  also have "\<dots> \<le> sum_list (take (Suc i) action_size) + sum_list (drop (Suc i) action_size)"
    by simp
  also have "\<dots> = sum_list action_size"
    by (metis append_take_drop_id sum_list_append)
  finally have fit: "?off + ?n \<le> sum_list action_size" .
  have len: "length (?br row) = ?n" if "row \<in> set m" for row
    using that rows fit by simp
  have pair: "(case p of (x, y) \<Rightarrow> vec_op (*) x y) =
      Inr (case p of (x, y) \<Rightarrow> map2 (*) x y)"
    if "p \<in> set (zip (map ?oh acts) (map ?br m))" for p
  proof -
    obtain x y where p: "p = (x, y)" by (cases p)
    from that p have "x \<in> set (map ?oh acts)" "y \<in> set (map ?br m)"
      by (auto dest: set_zip_leftD set_zip_rightD)
    then have "length x = ?n" "length y = ?n"
      using len by auto
    then show ?thesis
      using p by (simp add: vec_op_same_length)
  qed
  have "mat_op (*) (map ?oh acts) (map ?br m) =
      sequence_err (map (\<lambda>(x, y). vec_op (*) x y) (zip (map ?oh acts) (map ?br m)))"
    using acts(1) by (simp add: mat_op_def broadcast2_def)
  also have "\<dots> = Inr (map (\<lambda>(x, y). map2 (*) x y) (zip (map ?oh acts) (map ?br m)))"
    by (rule sequence_err_map_Inr) (rule pair)
  finally have prod: "mat_op (*) (map ?oh acts) (map ?br m) =
      Inr (map (\<lambda>(x, y). map2 (*) x y) (zip (map ?oh acts) (map ?br m)))" .
  have "map fsum (map (\<lambda>(x, y). map2 (*) x y) (zip (map ?oh acts) (map ?br m))) =
      map (\<lambda>b. m ! b ! (?off + acts ! b)) [0..<length m]"
  proof (intro nth_equalityI)
    show "length (map fsum (map (\<lambda>(x, y). map2 (*) x y) (zip (map ?oh acts) (map ?br m)))) =
        length (map (\<lambda>b. m ! b ! (?off + acts ! b)) [0..<length m])"
      using acts(1) by simp
  next
    fix b
    assume "b < length (map fsum (map (\<lambda>(x, y). map2 (*) x y)
        (zip (map ?oh acts) (map ?br m))))"
    then have b: "b < length m" using acts(1) by simp
    then have row: "m ! b \<in> set m" by simp
    have a: "acts ! b < ?n" using b acts by simp
    have fin: "\<forall>x \<in> set (?br (m ! b)). is_finite x"
      using rows row by (auto dest: in_set_takeD in_set_dropD)
    have "fsum (map2 (*) (?oh (acts ! b)) (?br (m ! b))) = ?br (m ! b) ! (acts ! b)"
      by (rule one_hot_select [OF len [OF row] a fin])
    also have "\<dots> = m ! b ! (?off + acts ! b)"
      using a rows row fit by simp
    finally show "map fsum (map (\<lambda>(x, y). map2 (*) x y) (zip (map ?oh acts) (map ?br m))) ! b =
        map (\<lambda>b. m ! b ! (?off + acts ! b)) [0..<length m] ! b"
      using b acts(1) by simp
  qed
  with prod show ?thesis by simp
qed

lemma mean_dim0_branches:
  assumes "0 < nb"
  shows "mean_dim0 (map (\<lambda>i. map (\<lambda>b. sel b i) [0..<B]) [0..<nb]) =
    Inr (map (\<lambda>b. mean (map (sel b) [0..<nb])) [0..<B])"
proof -
  let ?vs = "map (\<lambda>i. map (\<lambda>b. sel b i) [0..<B]) [0..<nb]"
  have ne: "?vs \<noteq> []" using assms by simp
  have hd: "hd ?vs = map (\<lambda>b. sel b 0) [0..<B]"
    using assms by (simp add: hd_map upt_conv_Cons)
  have lens: "\<not> (\<exists>v \<in> set ?vs. length v \<noteq> length (hd ?vs))"
    unfolding hd by auto
  have "map (\<lambda>b. mean (map (\<lambda>v. v ! b) ?vs)) [0..<B] =
      map (\<lambda>b. mean (map (sel b) [0..<nb])) [0..<B]"
    by (rule map_cong) (simp_all add: comp_def)
  then show ?thesis
    using ne lens unfolding mean_dim0_def hd by simp
qed

lemma condense_stream_selects:
  assumes nb: "action_size \<noteq> []" "length discrete_actions = length action_size"
    and acts: "\<forall>i < length action_size. length (discrete_actions ! i) = length m \<and>
        (\<forall>a \<in> set (discrete_actions ! i). a < action_size ! i)"
    and rows: "\<forall>row \<in> set m. length row = sum_list action_size \<and> (\<forall>x \<in> set row. is_finite x)"
  shows "condense_stream action_size
      (map (\<lambda>i. map (\<lambda>a. map (\<lambda>k. if k = a then Fin 1 else Fin 0) [0..<action_size ! i])
                      (discrete_actions ! i))
         [0..<length action_size])
      (Mat m) =
    Inr (condensed_spec action_size discrete_actions m)"
proof -
  let ?nb = "length action_size"
  let ?OH = "\<lambda>i. map (\<lambda>a. map (\<lambda>k. if k = a then Fin 1 else Fin 0 :: fl) [0..<action_size ! i])
      (discrete_actions ! i)"
  let ?BR = "\<lambda>i. map (\<lambda>row. take (action_size ! i) (drop (sum_list (take i action_size)) row)) m"
  let ?sel = "\<lambda>b i. selected_q action_size discrete_actions m b i"
  have zip: "zip (map ?OH [0..<?nb]) (break_into_branches m action_size) =
      map (\<lambda>i. (?OH i, ?BR i)) [0..<?nb]"
    by (simp add: break_into_branches_nth zip_map_map zip_same_conv_map)
  have each: "(case (?OH i, ?BR i) of (act, q) \<Rightarrow>
        and_then (mat_op (*) act q) (\<lambda>prod. Inr (map fsum prod))) =
      Inr (map (\<lambda>b. ?sel b i) [0..<length m])" if "i \<in> set [0..<?nb]" for i
  proof -
    from that have i: "i < ?nb" by simp
    with acts have a: "length (discrete_actions ! i) = length m"
      "\<forall>a \<in> set (discrete_actions ! i). a < action_size ! i"
      by simp_all
    show ?thesis
      using branch_products [OF i a rows] by (simp add: selected_q_def)
  qed
  have "sequence_err
        (map (\<lambda>(act, q). and_then (mat_op (*) act q) (\<lambda>prod. Inr (map fsum prod)))
           (zip (map ?OH [0..<?nb]) (break_into_branches m action_size))) =
      sequence_err (map (\<lambda>i. case (?OH i, ?BR i) of (act, q) \<Rightarrow>
        and_then (mat_op (*) act q) (\<lambda>prod. Inr (map fsum prod))) [0..<?nb])"
    unfolding zip by (simp add: comp_def)
  also have "\<dots> = Inr (map (\<lambda>i. map (\<lambda>b. ?sel b i) [0..<length m]) [0..<?nb])"
    by (rule sequence_err_map_Inr) (rule each)
  finally have only: "sequence_err
        (map (\<lambda>(act, q). and_then (mat_op (*) act q) (\<lambda>prod. Inr (map fsum prod)))
           (zip (map ?OH [0..<?nb]) (break_into_branches m action_size))) =
      Inr (map (\<lambda>i. map (\<lambda>b. ?sel b i) [0..<length m]) [0..<?nb])" .
  have pos: "0 < ?nb" using nb(1) by simp
  show ?thesis
    unfolding condense_stream_def
    by (simp add: only mean_dim0_branches [OF pos] condensed_spec_def comp_def)
qed

text \<open>
  C6, as the claim states it, fails for a Q output with an infinite entry: with one branch
  of two actions, the Q-values \<open>[1, inf]\<close> and the action 0, the condensed value is NaN,
  not the Q-value 1 of the selected action (the zero of the one-hot encoding times \<open>inf\<close>
  is NaN).
\<close>

theorem condense_q_streams_infinite:
  "condense_q_streams (ex_cfg\<lparr>act_size := [2]\<rparr>) [(''extrinsic'', Mat [[Fin 1, PInf]])] [[0]] =
     Inr [(''extrinsic'', Mat [[NaN]])]"
  by (simp add: condense_q_streams_def actions_to_onehot_def one_hot_def getindex_def
      condense_stream_def break_into_branches_def mat_op_def vec_op_def broadcast2_def
      mean_dim0_def mean_def inf_of_def upt_rec)

text \<open>
  C6, amended. For every per-stream discrete Q-output with finite entries (\<open>B\<close> rows of
  \<open>sum act_size\<close> values) and every batch of per-branch action indices within their
  branches, \<open>_condense_q_streams\<close> gives for each stream the \<open>[B, 1]\<close> tensor whose entry
  for a sample is the mean over the branches of the Q-value at the selected action index;
  with a single branch it is the Q-value of the selected action itself.
\<close>

theorem condense_q_streams_selects:
  assumes branches: "act_size cfg \<noteq> []" "length discrete_actions = length (act_size cfg)"
    and actions: "\<forall>i < length (act_size cfg). length (discrete_actions ! i) = B \<and>
        (\<forall>a \<in> set (discrete_actions ! i). a < act_size cfg ! i)"
    and q: "\<forall>(key, item) \<in> set q_output. \<exists>m. item = Mat m \<and> length m = B \<and>
        (\<forall>row \<in> set m. length row = sum_list (act_size cfg) \<and> (\<forall>x \<in> set row. is_finite x))"
  shows "condense_q_streams cfg q_output discrete_actions =
      Inr (map (\<lambda>(key, item).
                  (key, condensed_spec (act_size cfg) discrete_actions (the_mat item)))
             q_output) \<and>
    (\<forall>n. act_size cfg = [n] \<longrightarrow>
       condense_q_streams cfg q_output discrete_actions =
         Inr (map (\<lambda>(key, item).
                     (key, Mat (map (\<lambda>b. [the_mat item ! b ! (discrete_actions ! 0 ! b)])
                                  [0..<B])))
                q_output))"
proof -
  let ?A = "act_size cfg"
  let ?OH = "map (\<lambda>i. map (\<lambda>a. map (\<lambda>k. if k = a then Fin 1 else Fin 0 :: fl) [0..<?A ! i])
      (discrete_actions ! i)) [0..<length ?A]"
  have oh: "actions_to_onehot discrete_actions ?A = Inr ?OH"
    using branches(2) actions by (intro actions_to_onehot_in_range) simp_all
  have item: "(case p of (key, item) \<Rightarrow>
        and_then (condense_stream ?A ?OH item) (\<lambda>c. Inr (key, c))) =
      Inr (case p of (key, item) \<Rightarrow> (key, condensed_spec ?A discrete_actions (the_mat item)))"
    if "p \<in> set q_output" for p
  proof -
    obtain key it where p: "p = (key, it)" by (cases p)
    from q that p obtain m where m: "it = Mat m" "length m = B"
      "\<forall>row \<in> set m. length row = sum_list ?A \<and> (\<forall>x \<in> set row. is_finite x)"
      by auto
    from actions m(2) have acts: "\<forall>i < length ?A. length (discrete_actions ! i) = length m \<and>
        (\<forall>a \<in> set (discrete_actions ! i). a < ?A ! i)"
      by simp
    show ?thesis
      using condense_stream_selects [OF branches acts m(3)] p m(1) by simp
  qed
  have main: "condense_q_streams cfg q_output discrete_actions =
      Inr (map (\<lambda>(key, item). (key, condensed_spec ?A discrete_actions (the_mat item)))
             q_output)"
    unfolding condense_q_streams_def oh and_then_Inr
    by (rule sequence_err_map_Inr) (rule item)
  have single: "map (\<lambda>(key, item). (key, condensed_spec ?A discrete_actions (the_mat item)))
        q_output =
      map (\<lambda>(key, item). (key, Mat (map (\<lambda>b. [the_mat item ! b ! (discrete_actions ! 0 ! b)])
        [0..<B]))) q_output" if n: "?A = [n]" for n
  proof (rule map_cong [OF refl])
    fix p assume pin: "p \<in> set q_output"
    obtain key it where p: "p = (key, it)" by (cases p)
    from q pin p obtain m where m: "it = Mat m" "length m = B"
      "\<forall>row \<in> set m. length row = sum_list ?A \<and> (\<forall>x \<in> set row. is_finite x)"
      by auto
    from actions n have bact: "length (discrete_actions ! 0) = B"
      "\<forall>a \<in> set (discrete_actions ! 0). a < n"
      by simp_all
    have "mean [m ! b ! (discrete_actions ! 0 ! b)] = m ! b ! (discrete_actions ! 0 ! b)"
      if b: "b < B" for b
    proof -
      have row: "m ! b \<in> set m" using b m(2) by simp
      have "discrete_actions ! 0 ! b < n" using bact b by simp
      then have "discrete_actions ! 0 ! b < length (m ! b)"
        using m(3) row n by simp
      then have "m ! b ! (discrete_actions ! 0 ! b) \<in> set (m ! b)" by simp
      with m(3) row have "is_finite (m ! b ! (discrete_actions ! 0 ! b))" by blast
      then show ?thesis
        by (cases "m ! b ! (discrete_actions ! 0 ! b)") (simp_all add: mean_def)
    qed
    then show "(case p of (key, item) \<Rightarrow>
          (key, condensed_spec ?A discrete_actions (the_mat item))) =
        (case p of (key, item) \<Rightarrow>
          (key, Mat (map (\<lambda>b. [the_mat item ! b ! (discrete_actions ! 0 ! b)]) [0..<B])))"
      using p m(1,2) n by (simp add: condensed_spec_def selected_q_def)
  qed
  from main single show ?thesis by simp
qed

theorem condense_q_streams_selects_witness:
  "condense_q_streams ex_cfg_discrete [(''extrinsic'', Mat [[Fin 1, Fin 2, Fin 3, Fin 4]])]
     [[0], [1]] =
     Inr [(''extrinsic'', Mat [[Fin (5/2)]])] \<and>
   condense_q_streams (ex_cfg\<lparr>act_size := [2]\<rparr>)
     [(''extrinsic'', Mat [[Fin 1, Fin 2], [Fin 3, Fin 4]])] [[1, 0]] =
     Inr [(''extrinsic'', Mat [[Fin 2], [Fin 3]])]"
proof -
  have a: "condense_q_streams ex_cfg_discrete
      [(''extrinsic'', Mat [[Fin 1, Fin 2, Fin 3, Fin 4]])] [[0], [1]] =
      Inr [(''extrinsic'', Mat [[Fin (5/2)]])]"
    using condense_q_streams_selects [of ex_cfg_discrete "[[0], [1]]" 1
        "[(''extrinsic'', Mat [[Fin 1, Fin 2, Fin 3, Fin 4]])]"]
    by (simp add: ex_cfg_discrete_def ex_cfg_def less_Suc_eq condensed_spec_def selected_q_def
        mean_def upt_rec)
  have b: "condense_q_streams (ex_cfg\<lparr>act_size := [2]\<rparr>)
      [(''extrinsic'', Mat [[Fin 1, Fin 2], [Fin 3, Fin 4]])] [[1, 0]] =
      Inr [(''extrinsic'', Mat [[Fin 2], [Fin 3]])]"
    using condense_q_streams_selects [of "ex_cfg\<lparr>act_size := [2]\<rparr>" "[[1, 0]]" 2
        "[(''extrinsic'', Mat [[Fin 1, Fin 2], [Fin 3, Fin 4]])]"]
    by (simp add: less_Suc_eq upt_rec condensed_spec_def selected_q_def mean_def)
  from a b show ?thesis by simp
qed


section \<open>The entropy coefficient\<close>


lemma exp_nat_le: "exp (real n) \<le> (3::real) ^ n"
proof -
  have "exp (real n) = exp 1 ^ n"
    using exp_of_nat_mult [of n "1::real"] by simp
  also have "\<dots> \<le> 3 ^ n"
    by (rule power_mono) (simp_all add: exp_le)
  finally show ?thesis .
qed


lemma exp_above_underflow:
  assumes "- 90 \<le> (a::real)"
  shows "\<not> exp a \<le> 1 / 2 ^ 150"
proof -
  have "exp (90::real) \<le> 3 ^ 90"
    using exp_nat_le [of 90] by simp
  also have "\<dots> < (2::real) ^ 150" by simp
  finally have "exp (90::real) < 2 ^ 150" .
  then have "1 / 2 ^ 150 < 1 / exp (90::real)"
    by (simp add: field_simps)
  also have "\<dots> = exp (- 90)"
    by (simp add: exp_minus inverse_eq_divide)
  also have "\<dots> \<le> exp a"
    using assms by simp
  finally show ?thesis by simp
qed

lemma fexp_in_range:
  assumes "- 90 \<le> a" "a \<le> 76"
  shows "fexp (Fin a) = Fin (exp a)"
proof -
  have "exp a \<le> exp (76::real)"
    using assms(2) by simp
  also have "\<dots> \<le> 3 ^ 76"
    using exp_nat_le [of 76] by simp
  also have "\<dots> < (2 - 1 / 2 ^ 24) * 2 ^ 127" by simp
  finally have high: "\<not> (2 - 1 / 2 ^ 24) * 2 ^ 127 \<le> exp a" by simp
  from exp_above_underflow [OF assms(1)] high show ?thesis by simp
qed


lemma fexp_zero [simp]: "fexp (Fin 0) = Fin 1"
  using fexp_in_range [of 0] by simp

lemma fexp_one [simp]: "fexp (Fin 1) = Fin (exp 1)"
  using fexp_in_range [of 1] by simp

declare fexp.simps(1) [simp del]

section \<open>The update\<close>

lemma update_success:
  assumes "update be cfg st batch n = (Inr stats, st')"
  shows "\<exists>memories ls.
    sequence_memories (sequence_length cfg) (batch_memory batch) = Inr memories \<and>
    and_then (forward_pass be cfg (copy_normalization st) batch memories)
      (compute_losses cfg (copy_normalization st) batch) = Inr ls \<and>
    update_target cfg (optimizer_steps be (copy_normalization st) batch ls) = (None, st') \<and>
    stats = update_stats ls (log_ent_coef st')"
  using assms
  by (auto simp: update_def Let_def split: sum.splits prod.splits option.splits)

lemma update_target_None:
  assumes "update_target cfg s = (None, s')"
  shows "soft_update (critic_params s) (target_params s) (tau cfg) = (None, target_params s') \<and>
    s' = s\<lparr>target_params := target_params s', calls := calls s @ [SoftUpdate (tau cfg)]\<rparr>"
  using assms by (auto simp: update_target_def split: prod.splits)

lemmas step_defs = optimizer_steps_def zero_grad_backward_def policy_optimizer_step_def
  value_optimizer_step_def entropy_optimizer_step_def

lemma optimizer_steps_calls:
  "calls (optimizer_steps be fwd batch ls) =
     calls fwd @ [ZeroGrad PolicyOptimizer, Backward PolicyLoss (policy_loss ls),
       Step PolicyOptimizer, ZeroGrad ValueOptimizer,
       Backward TotalValueLoss (q1_loss ls + q2_loss ls + value_loss ls), Step ValueOptimizer,
       ZeroGrad EntropyOptimizer, Backward EntropyLoss (entropy_loss ls),
       Step EntropyOptimizer]"
  by (simp add: step_defs Let_def split_beta)

lemma optimizer_steps_grads:
  "grads (optimizer_steps be fwd batch ls) =
     backward be EntropyLoss fwd batch (zero_grad be EntropyOptimizer
       (backward be TotalValueLoss fwd batch (zero_grad be ValueOptimizer
         (backward be PolicyLoss fwd batch (zero_grad be PolicyOptimizer (grads fwd))))))"
  by (simp add: step_defs Let_def split_beta)

lemma optimizer_steps_policy:
  "(policy_optimizer (optimizer_steps be fwd batch ls),
    policy_params (optimizer_steps be fwd batch ls)) =
     optimizer_step be PolicyOptimizer (policy_optimizer fwd)
       (backward be PolicyLoss fwd batch (zero_grad be PolicyOptimizer (grads fwd)))
       (policy_params fwd)"
  by (simp add: step_defs Let_def split_beta)

lemma optimizer_steps_value:
  "value_optimizer (optimizer_steps be fwd batch ls) =
     fst (optimizer_step be ValueOptimizer (value_optimizer fwd)
       (backward be TotalValueLoss fwd batch (zero_grad be ValueOptimizer
         (backward be PolicyLoss fwd batch (zero_grad be PolicyOptimizer (grads fwd)))))
       (q1_params fwd @ q2_params fwd @ critic_params fwd))"
  "q1_params (optimizer_steps be fwd batch ls) =
     take (length (q1_params fwd))
       (snd (optimizer_step be ValueOptimizer (value_optimizer fwd)
         (backward be TotalValueLoss fwd batch (zero_grad be ValueOptimizer
           (backward be PolicyLoss fwd batch (zero_grad be PolicyOptimizer (grads fwd)))))
         (q1_params fwd @ q2_params fwd @ critic_params fwd)))"
  "q2_params (optimizer_steps be fwd batch ls) =
     take (length (q2_params fwd)) (drop (length (q1_params fwd))
       (snd (optimizer_step be ValueOptimizer (value_optimizer fwd)
         (backward be TotalValueLoss fwd batch (zero_grad be ValueOptimizer
           (backward be PolicyLoss fwd batch (zero_grad be PolicyOptimizer (grads fwd)))))
         (q1_params fwd @ q2_params fwd @ critic_params fwd))))"
  "critic_params (optimizer_steps be fwd batch ls) =
     drop (length (q1_params fwd) + length (q2_params fwd))
       (snd (optimizer_step be ValueOptimizer (value_optimizer fwd)
         (backward be TotalValueLoss fwd batch (zero_grad be ValueOptimizer
           (backward be PolicyLoss fwd batch (zero_grad be PolicyOptimizer (grads fwd)))))
         (q1_params fwd @ q2_params fwd @ critic_params fwd)))"
  by (simp_all add: step_defs Let_def split_beta)

lemma optimizer_steps_entropy:
  "(entropy_optimizer (optimizer_steps be fwd batch ls),
    log_ent_coef (optimizer_steps be fwd batch ls)) =
     coefficient_step be (entropy_optimizer fwd)
       (backward be EntropyLoss fwd batch (zero_grad be EntropyOptimizer
         (backward be TotalValueLoss fwd batch (zero_grad be ValueOptimizer
           (backward be PolicyLoss fwd batch (zero_grad be PolicyOptimizer (grads fwd)))))))
       (log_ent_coef fwd)"
  by (simp add: step_defs Let_def split_beta)

lemma optimizer_steps_target:
  "target_params (optimizer_steps be fwd batch ls) = target_params fwd"
  by (simp add: step_defs Let_def split_beta)


lemmas eval_defs = update_def sequence_memories_def copy_normalization_def forward_pass_def
  visual_observations_def value_network_def compute_losses_def stream_rewards_def
  sac_q_loss_def q_loss_stream_def getitem_def getindex_def vec_op_def mat_op_def
  broadcast2_def mse_loss_def mean_def mean_stack_def enumerate_eq_zip minus_fl_def squeeze_def
  sac_value_loss_def mean_value_loss_def min_policy_q_def scale_rows_def masked_value_loss_def
  isinf_def isnan_def sac_policy_loss_def mean_streams_def mean_dim0_def masked_mean_def
  sac_entropy_loss_def step_defs update_target_def soft_update_param_def
  copy_into_def update_stats_def condense_q_streams_def condense_stream_def
  actions_to_onehot_def one_hot_def break_into_branches_def
  branched_weighted_q_def stack_def squeeze_stack_def rows_of_columns_def mean_dim0_mat_def
  minus_sfl_def plus_sfl_def times_sfl_def

lemmas ex_defs = ex_backend_def ex_cfg_def ex_state_def ex_batch_def ex_backend_nan_def
  ex_backend_discrete_def ex_cfg_discrete_def ex_state_discrete_def ex_batch_discrete_def

lemma ex_update_stats:
  "fst (update ex_backend ex_cfg ex_state ex_batch 2) =
     Inr [(''Losses/Policy Loss'', Scalar (Fin 1)),
          (''Losses/Value Loss'', Scalar (Fin (1/2))),
          (''Losses/Q1 Loss'', Scalar (Fin (1/2))),
          (''Losses/Q2 Loss'', Scalar (Fin (1/2))),
          (''Policy/Entropy Coeff'', Array [Fin (exp 1)])]"
  by (simp add: eval_defs ex_defs Let_def)



text \<open>
  C7. In every successful update call the policy optimizer is cleared, gets the gradients
  of the policy loss and steps; then the value optimizer is cleared, gets the gradients of
  the sum of the Q1 loss, the Q2 loss and the value loss, and steps; then the entropy
  optimizer is cleared, gets the gradients of the entropy loss, and steps; and then the
  target network is updated from the critic's parameters as the value optimizer's step
  left them, with the configured \<open>tau\<close>. Each step reads the gradient buffers as they are
  after the clearing and the backward pass just before it.
\<close>

theorem update_order:
  assumes "update be cfg st batch n = (Inr stats, st')"
  shows "\<exists>memories ls.
    sequence_memories (sequence_length cfg) (batch_memory batch) = Inr memories \<and>
    and_then (forward_pass be cfg (copy_normalization st) batch memories)
      (compute_losses cfg (copy_normalization st) batch) = Inr ls \<and>
    (let fwd = copy_normalization st;
         g1 = backward be PolicyLoss fwd batch (zero_grad be PolicyOptimizer (grads st));
         g2 = backward be TotalValueLoss fwd batch (zero_grad be ValueOptimizer g1);
         g3 = backward be EntropyLoss fwd batch (zero_grad be EntropyOptimizer g2);
         value_step = optimizer_step be ValueOptimizer (value_optimizer st) g2
                        (q1_params st @ q2_params st @ critic_params st)
     in
     calls st' =
       calls st @ [ZeroGrad PolicyOptimizer, Backward PolicyLoss (policy_loss ls),
         Step PolicyOptimizer, ZeroGrad ValueOptimizer,
         Backward TotalValueLoss (q1_loss ls + q2_loss ls + value_loss ls),
         Step ValueOptimizer, ZeroGrad EntropyOptimizer,
         Backward EntropyLoss (entropy_loss ls), Step EntropyOptimizer,
         SoftUpdate (tau cfg)] \<and>
     (policy_optimizer st', policy_params st') =
       optimizer_step be PolicyOptimizer (policy_optimizer st) g1 (policy_params st) \<and>
     value_optimizer st' = fst value_step \<and>
     q1_params st' = take (length (q1_params st)) (snd value_step) \<and>
     q2_params st' =
       take (length (q2_params st)) (drop (length (q1_params st)) (snd value_step)) \<and>
     critic_params st' =
       drop (length (q1_params st) + length (q2_params st)) (snd value_step) \<and>
     (entropy_optimizer st', log_ent_coef st') =
       coefficient_step be (entropy_optimizer st) g3 (log_ent_coef st) \<and>
     grads st' = g3 \<and>
     soft_update (critic_params st') (target_params st) (tau cfg) = (None, target_params st'))"
proof -
  let ?fwd = "copy_normalization st"
  from update_success [OF assms] obtain memories ls where
    m: "sequence_memories (sequence_length cfg) (batch_memory batch) = Inr memories" and
    l: "and_then (forward_pass be cfg ?fwd batch memories) (compute_losses cfg ?fwd batch)
        = Inr ls" and
    t: "update_target cfg (optimizer_steps be ?fwd batch ls) = (None, st')"
    by blast
  let ?s = "optimizer_steps be ?fwd batch ls"
  from update_target_None [OF t] have
    su: "soft_update (critic_params ?s) (target_params ?s) (tau cfg) = (None, target_params st')"
    and st': "st' = ?s\<lparr>target_params := target_params st',
                        calls := calls ?s @ [SoftUpdate (tau cfg)]\<rparr>"
    by simp_all
  have fields: "calls st' = calls ?s @ [SoftUpdate (tau cfg)]" "grads st' = grads ?s"
    "policy_optimizer st' = policy_optimizer ?s" "policy_params st' = policy_params ?s"
    "value_optimizer st' = value_optimizer ?s" "q1_params st' = q1_params ?s"
    "q2_params st' = q2_params ?s" "critic_params st' = critic_params ?s"
    "entropy_optimizer st' = entropy_optimizer ?s" "log_ent_coef st' = log_ent_coef ?s"
    by (subst st', simp)+
  have fwd: "grads ?fwd = grads st" "calls ?fwd = calls st"
    "policy_optimizer ?fwd = policy_optimizer st" "policy_params ?fwd = policy_params st"
    "value_optimizer ?fwd = value_optimizer st" "q1_params ?fwd = q1_params st"
    "q2_params ?fwd = q2_params st" "critic_params ?fwd = critic_params st"
    "entropy_optimizer ?fwd = entropy_optimizer st" "log_ent_coef ?fwd = log_ent_coef st"
    "target_params ?fwd = target_params st"
    by (simp_all add: copy_normalization_def)
  have c: "calls st' =
       calls st @ [ZeroGrad PolicyOptimizer, Backward PolicyLoss (policy_loss ls),
         Step PolicyOptimizer, ZeroGrad ValueOptimizer,
         Backward TotalValueLoss (q1_loss ls + q2_loss ls + value_loss ls),
         Step ValueOptimizer, ZeroGrad EntropyOptimizer,
         Backward EntropyLoss (entropy_loss ls), Step EntropyOptimizer,
         SoftUpdate (tau cfg)]"
    by (simp add: fields(1) optimizer_steps_calls fwd)
  have p: "(policy_optimizer st', policy_params st') =
      optimizer_step be PolicyOptimizer (policy_optimizer st)
        (backward be PolicyLoss ?fwd batch (zero_grad be PolicyOptimizer (grads st)))
        (policy_params st)"
    using optimizer_steps_policy [of be ?fwd batch ls] by (simp only: fields fwd)
  have e: "(entropy_optimizer st', log_ent_coef st') =
      coefficient_step be (entropy_optimizer st)
        (backward be EntropyLoss ?fwd batch (zero_grad be EntropyOptimizer
          (backward be TotalValueLoss ?fwd batch (zero_grad be ValueOptimizer
            (backward be PolicyLoss ?fwd batch (zero_grad be PolicyOptimizer (grads st)))))))
        (log_ent_coef st)"
    using optimizer_steps_entropy [of be ?fwd batch ls] by (simp only: fields fwd)
  have g: "grads st' =
      backward be EntropyLoss ?fwd batch (zero_grad be EntropyOptimizer
        (backward be TotalValueLoss ?fwd batch (zero_grad be ValueOptimizer
          (backward be PolicyLoss ?fwd batch (zero_grad be PolicyOptimizer (grads st))))))"
    by (simp only: fields optimizer_steps_grads fwd)
  have v: "value_optimizer st' =
      fst (optimizer_step be ValueOptimizer (value_optimizer st)
        (backward be TotalValueLoss ?fwd batch (zero_grad be ValueOptimizer
          (backward be PolicyLoss ?fwd batch (zero_grad be PolicyOptimizer (grads st)))))
        (q1_params st @ q2_params st @ critic_params st))"
    "q1_params st' = take (length (q1_params st))
      (snd (optimizer_step be ValueOptimizer (value_optimizer st)
        (backward be TotalValueLoss ?fwd batch (zero_grad be ValueOptimizer
          (backward be PolicyLoss ?fwd batch (zero_grad be PolicyOptimizer (grads st)))))
        (q1_params st @ q2_params st @ critic_params st)))"
    "q2_params st' = take (length (q2_params st)) (drop (length (q1_params st))
      (snd (optimizer_step be ValueOptimizer (value_optimizer st)
        (backward be TotalValueLoss ?fwd batch (zero_grad be ValueOptimizer
          (backward be PolicyLoss ?fwd batch (zero_grad be PolicyOptimizer (grads st)))))
        (q1_params st @ q2_params st @ critic_params st))))"
    "critic_params st' = drop (length (q1_params st) + length (q2_params st))
      (snd (optimizer_step be ValueOptimizer (value_optimizer st)
        (backward be TotalValueLoss ?fwd batch (zero_grad be ValueOptimizer
          (backward be PolicyLoss ?fwd batch (zero_grad be PolicyOptimizer (grads st)))))
        (q1_params st @ q2_params st @ critic_params st)))"
    by (simp_all only: fields optimizer_steps_value fwd)
  have s: "soft_update (critic_params st') (target_params st) (tau cfg) =
      (None, target_params st')"
    using su by (simp only: fields optimizer_steps_target fwd)
  show ?thesis
    unfolding Let_def
    by (intro exI [of _ memories] exI [of _ ls] conjI m l c p e g v s)
qed

theorem update_order_witness:
  "calls (snd (update ex_backend ex_cfg ex_state ex_batch 2)) =
     [ZeroGrad PolicyOptimizer, Backward PolicyLoss (Fin (- 1)), Step PolicyOptimizer,
      ZeroGrad ValueOptimizer, Backward TotalValueLoss (Fin (3/2)), Step ValueOptimizer,
      ZeroGrad EntropyOptimizer, Backward EntropyLoss (Fin 0), Step EntropyOptimizer,
      SoftUpdate (SFin (1/200))] \<and>
   critic_params (snd (update ex_backend ex_cfg ex_state ex_batch 2)) = [[SFin 2]] \<and>
   target_params (snd (update ex_backend ex_cfg ex_state ex_batch 2)) = [[SFin (1/100)]]"
proof -
  let ?u = "update ex_backend ex_cfg ex_state ex_batch 2"
  have "?u = (fst ?u, snd ?u)" by simp
  then have u: "?u = (Inr [(''Losses/Policy Loss'', Scalar (Fin 1)),
          (''Losses/Value Loss'', Scalar (Fin (1/2))),
          (''Losses/Q1 Loss'', Scalar (Fin (1/2))),
          (''Losses/Q2 Loss'', Scalar (Fin (1/2))),
          (''Policy/Entropy Coeff'', Array [Fin (exp 1)])], snd ?u)"
    by (simp only: ex_update_stats)
  from update_order [OF u] obtain memories ls where
    m: "sequence_memories (sequence_length ex_cfg) (batch_memory ex_batch) = Inr memories"
    and l: "and_then
          (forward_pass ex_backend ex_cfg (copy_normalization ex_state) ex_batch memories)
          (compute_losses ex_cfg (copy_normalization ex_state) ex_batch) = Inr ls"
    and c: "calls (snd ?u) =
       calls ex_state @ [ZeroGrad PolicyOptimizer, Backward PolicyLoss (policy_loss ls),
         Step PolicyOptimizer, ZeroGrad ValueOptimizer,
         Backward TotalValueLoss (q1_loss ls + q2_loss ls + value_loss ls),
         Step ValueOptimizer, ZeroGrad EntropyOptimizer,
         Backward EntropyLoss (entropy_loss ls), Step EntropyOptimizer,
         SoftUpdate (tau ex_cfg)]"
    and cr: "critic_params (snd ?u) =
       drop (length (q1_params ex_state) + length (q2_params ex_state))
         (snd (optimizer_step ex_backend ValueOptimizer (value_optimizer ex_state)
           (backward ex_backend TotalValueLoss (copy_normalization ex_state) ex_batch
             (zero_grad ex_backend ValueOptimizer
               (backward ex_backend PolicyLoss (copy_normalization ex_state) ex_batch
                 (zero_grad ex_backend PolicyOptimizer (grads ex_state)))))
           (q1_params ex_state @ q2_params ex_state @ critic_params ex_state)))"
    and su: "soft_update (critic_params (snd ?u)) (target_params ex_state) (tau ex_cfg) =
       (None, target_params (snd ?u))"
    unfolding Let_def by blast
  from m have mem: "memories = []"
    by (simp add: sequence_memories_def ex_defs)
  from l have ls: "ls = \<lparr>q1_loss = Fin (1/2), q2_loss = Fin (1/2), value_loss = Fin (1/2),
      policy_loss = Fin (- 1), entropy_loss = Fin 0\<rparr>"
    unfolding mem by (simp add: eval_defs ex_defs Let_def)
  have crit: "critic_params (snd ?u) = [[SFin 2]]"
    unfolding cr by (simp add: ex_defs plus_sfl_def)
  from su have "target_params (snd ?u) = [[SFin (1/100)]]"
    unfolding crit by (simp add: ex_defs eval_defs)
  with c ls crit show ?thesis
    by (simp add: ex_defs)
qed




text \<open>
  C9. The update of a discrete policy with two branches, evaluated: the dictionary
  returned has the five keys, the policy loss \<open>- 5\<close> is reported as 5, and the entry
  \<open>Policy/Entropy Coeff\<close> is not a scalar but a tensor with one coefficient per branch.
\<close>

theorem update_stats_two_branches:
  "fst (update ex_backend_discrete ex_cfg_discrete ex_state_discrete ex_batch_discrete 1) =
     Inr [(''Losses/Policy Loss'', Scalar (Fin 5)),
          (''Losses/Value Loss'', Scalar (Fin (9/2))),
          (''Losses/Q1 Loss'', Scalar (Fin (25/8))),
          (''Losses/Q2 Loss'', Scalar (Fin (25/8))),
          (''Policy/Entropy Coeff'', Array [Fin (exp 1), Fin (exp 1)])]"
  by (simp add: eval_defs ex_defs Let_def upt_rec)


section \<open>The reward signals\<close>

text \<open>
  C10. For every mapping of reward-signal minibatches and every sequence count,
  \<open>update_reward_signals\<close> returns the empty dictionary and leaves the whole state of the
  optimizer as it was.
\<close>

theorem update_reward_signals_empty:
  "update_reward_signals st reward_signal_minibatches num_sequences = ([], st)"
  by (simp add: update_reward_signals_def)

end
